theory Spec2Isabelle
  imports Complex_Main
begin

section \<open>Two-compartment cells and populations of the NEURON tutorials\<close>

text \<open>
  The scripts \<^verbatim>\<open>tutorial_3_solution.py\<close>, \<^verbatim>\<open>tutorial_4a.py\<close> and
  \<^verbatim>\<open>tutorial_4b.py\<close> define a class \<^verbatim>\<open>HHCell\<close> and (in 4b) a class \<^verbatim>\<open>Pop\<close>
  on top of the NEURON engine (\<^verbatim>\<open>h\<close>), matplotlib (\<^verbatim>\<open>plt\<close>) and numpy's random
  generator. The embedding follows \<^verbatim>\<open>tutorial_4b.py\<close>, whose class has every method of
  the other two; where \<^verbatim>\<open>tutorial_4a.py\<close> differs in a method the claims are about, the
  variant has a definition of its own (suffix \<open>_4a\<close>).

  Python and engine numbers are modelled as \<open>real\<close>: the scripts only store literals and
  form \<open>size * fraction\<close> and \<open>low + (high - low) * u\<close>. Engine objects that other objects
  refer to (sections, vectors) carry an object id drawn from an allocation counter of the
  engine state; everything else is held by value. Attributes that exist only after a
  method has run (\<^verbatim>\<open>stim\<close>, the recording vectors, \<^verbatim>\<open>x\<close>, \<^verbatim>\<open>y\<close>) are \<open>option\<close>
  fields, and reading one that is not there is an \<open>AttributeError\<close>. The fields
  \<^verbatim>\<open>x\<close>, \<^verbatim>\<open>y\<close> of a cell and \<^verbatim>\<open>tau\<close>, \<^verbatim>\<open>e\<close> of a synapse are named \<open>cell_x\<close>, \<open>cell_y\<close>,
  \<open>syn_tau\<close>, \<open>syn_e\<close>.
\<close>

subsection \<open>Python errors and list indexing\<close>

datatype py_error = IndexError | AttributeError

text \<open>\<^verbatim>\<open>xs[i]\<close> on a Python list: a negative index counts from the end.\<close>

definition py_getitem :: "'a list \<Rightarrow> int \<Rightarrow> py_error + 'a" where
  "py_getitem xs i =
     (if 0 \<le> i then
        (if i < int (length xs) then Inr (xs ! nat i) else Inl IndexError)
      else
        (if - int (length xs) \<le> i then Inr (xs ! nat (int (length xs) + i))
         else Inl IndexError))"

subsection \<open>Engine objects\<close>

type_synonym obj_id = nat

text \<open>\<^verbatim>\<open>sec(x)\<close>: the segment of a section at the normalised position \<open>x\<close>.\<close>

type_synonym segment = "obj_id \<times> real"

text \<open>
  A section. \<open>attrs\<close> holds the attributes the script has assigned (\<^verbatim>\<open>sec.Ra = 100\<close>
  is \<open>attrs(''Ra'' \<mapsto> 100)\<close>), \<open>mechs\<close> the mechanisms inserted, in order. A section
  has at most one parent: \<open>parentseg\<close> is the segment it is attached to, with the end of
  this section that is attached (0, the default of \<^verbatim>\<open>connect\<close>), and a repeated
  \<^verbatim>\<open>sec.connect(parent_segment)\<close> attaches it anew. \<open>connect_calls\<close> counts the calls of
  \<^verbatim>\<open>connect\<close> made on the section; it is a trace of the script's calls, not a state of
  the engine.
\<close>

record nrn_section =
  sec_id :: obj_id
  sec_name :: string
  attrs :: "string \<rightharpoonup> real"
  mechs :: "string list"
  parentseg :: "(segment \<times> real) option"
  connect_calls :: nat

record iclamp =
  ic_seg :: segment
  amp :: real
  delay :: real
  dur :: real

record expsyn =
  syn_seg :: segment
  syn_tau :: real
  syn_e :: real

record netcon =
  nc_source :: segment
  nc_target :: "expsyn option"
  nc_sec :: obj_id
  nc_delay :: real
  nc_weight :: real

text \<open>What a recording vector samples: the voltage of a segment, or the engine's time.\<close>

datatype ref = Ref_v segment | Ref_t

text \<open>\<^verbatim>\<open>nc.record(tvec, idvec, id)\<close>: crossings at the source are logged as \<open>id\<close>.\<close>

record spike_record =
  sr_source :: segment
  sr_tvec :: obj_id
  sr_idvec :: obj_id
  sr_id :: nat

record hoc =
  next_id :: obj_id
  vec_data :: "obj_id \<Rightarrow> real list"
  recordings :: "(obj_id \<times> ref) list"
  spike_records :: "spike_record list"

definition hoc_init :: hoc where
  "hoc_init = \<lparr>next_id = 0, vec_data = (\<lambda>_. []), recordings = [], spike_records = []\<rparr>"

text \<open>\<^verbatim>\<open>h.Section(name=...)\<close>\<close>

definition Section :: "string \<Rightarrow> hoc \<Rightarrow> nrn_section \<times> hoc" where
  "Section name h =
     (\<lparr>sec_id = next_id h, sec_name = name, attrs = Map.empty, mechs = [],
       parentseg = None, connect_calls = 0\<rparr>,
      h\<lparr>next_id := Suc (next_id h)\<rparr>)"

text \<open>\<^verbatim>\<open>h.Vector()\<close>: a fresh, empty vector.\<close>

definition Vector :: "hoc \<Rightarrow> obj_id \<times> hoc" where
  "Vector h = (next_id h, h\<lparr>next_id := Suc (next_id h), vec_data := (vec_data h)(next_id h := [])\<rparr>)"

text \<open>\<^verbatim>\<open>vec.record(ref)\<close>\<close>

definition vec_record :: "obj_id \<Rightarrow> ref \<Rightarrow> hoc \<Rightarrow> hoc" where
  "vec_record v r h = h\<lparr>recordings := recordings h @ [(v, r)]\<rparr>"

text \<open>\<^verbatim>\<open>child.connect(parent_segment)\<close>\<close>

definition connect :: "nrn_section \<Rightarrow> segment \<Rightarrow> nrn_section" where
  "connect child pseg =
     child\<lparr>parentseg := Some (pseg, 0), connect_calls := Suc (connect_calls child)\<rparr>"

text \<open>\<^verbatim>\<open>sec.insert(name)\<close> and \<^verbatim>\<open>sec.attr = v\<close>\<close>

definition insert_mech :: "string \<Rightarrow> nrn_section \<Rightarrow> nrn_section" where
  "insert_mech m sec = sec\<lparr>mechs := mechs sec @ [m]\<rparr>"

definition setattr :: "string \<Rightarrow> real \<Rightarrow> nrn_section \<Rightarrow> nrn_section" where
  "setattr a v sec = sec\<lparr>attrs := (attrs sec)(a \<mapsto> v)\<rparr>"

text \<open>\<^verbatim>\<open>h.IClamp(seg)\<close>, \<^verbatim>\<open>h.ExpSyn(seg)\<close>, \<^verbatim>\<open>h.NetCon(source, target, sec=...)\<close>
  with the engine's defaults for the fields the script sets afterwards.\<close>

definition IClamp :: "segment \<Rightarrow> iclamp" where
  "IClamp seg = \<lparr>ic_seg = seg, amp = 0, delay = 0, dur = 0\<rparr>"

definition ExpSyn :: "segment \<Rightarrow> expsyn" where
  "ExpSyn seg = \<lparr>syn_seg = seg, syn_tau = 0.1, syn_e = 0\<rparr>"

definition NetCon :: "segment \<Rightarrow> expsyn option \<Rightarrow> obj_id \<Rightarrow> netcon" where
  "NetCon src tgt sec = \<lparr>nc_source = src, nc_target = tgt, nc_sec = sec, nc_delay = 1, nc_weight = 0\<rparr>"

definition nc_record :: "netcon \<Rightarrow> obj_id \<Rightarrow> obj_id \<Rightarrow> nat \<Rightarrow> hoc \<Rightarrow> hoc" where
  "nc_record nc tv iv i h =
     h\<lparr>spike_records := spike_records h @
         [\<lparr>sr_source = nc_source nc, sr_tvec = tv, sr_idvec = iv, sr_id = i\<rparr>]\<rparr>"

subsection \<open>HHCell\<close>

record HHCell =
  synlist :: "expsyn list"
  nclist :: "netcon list"
  nslist :: "obj_id list"
  soma :: nrn_section
  dend :: nrn_section
  stim :: "iclamp option"
  soma_v_vec :: "obj_id option"
  dend_v_vec :: "obj_id option"
  t_vec :: "obj_id option"
  cell_x :: "real option"
  cell_y :: "real option"

text \<open>\<^verbatim>\<open>create_sections\<close>: the two sections that become \<^verbatim>\<open>self.soma\<close> and \<^verbatim>\<open>self.dend\<close>.\<close>

definition create_sections :: "hoc \<Rightarrow> (nrn_section \<times> nrn_section) \<times> hoc" where
  "create_sections h =
     (let (s, h1) = Section ''soma'' h;
          (d, h2) = Section ''dend'' h1
      in ((s, d), h2))"

definition build_topology :: "HHCell \<Rightarrow> HHCell" where
  "build_topology self = self\<lparr>dend := connect (dend self) (sec_id (soma self), 1)\<rparr>"

text \<open>\<^verbatim>\<open>define_geometry\<close> of \<^verbatim>\<open>tutorial_4b.py\<close> and \<^verbatim>\<open>tutorial_3_solution.py\<close>;
  \<^verbatim>\<open>tutorial_4a.py\<close> sets \<^verbatim>\<open>nseg = 10\<close>, which no property below depends on. The chained
  assignment \<^verbatim>\<open>soma.L = soma.diam = 12.6157\<close> assigns \<^verbatim>\<open>L\<close> first.\<close>

definition define_geometry :: "HHCell \<Rightarrow> HHCell" where
  "define_geometry self =
     (let self = self\<lparr>soma := setattr ''diam'' 12.6157 (setattr ''L'' 12.6157 (soma self))\<rparr>;
          self = self\<lparr>dend := setattr ''L'' 200 (dend self)\<rparr>;
          self = self\<lparr>dend := setattr ''diam'' 1 (dend self)\<rparr>;
          self = self\<lparr>dend := setattr ''nseg'' 9 (dend self)\<rparr>
      in self)"

definition define_biophysics :: "HHCell \<Rightarrow> HHCell" where
  "define_biophysics self =
     (let self = self\<lparr>soma := setattr ''cm'' 1 (setattr ''Ra'' 100 (soma self))\<rparr>;
          self = self\<lparr>dend := setattr ''cm'' 1 (setattr ''Ra'' 100 (dend self))\<rparr>;
          self = self\<lparr>soma := insert_mech ''hh'' (soma self)\<rparr>;
          self = self\<lparr>soma := setattr ''gnabar_hh'' 0.12 (soma self)\<rparr>;
          self = self\<lparr>soma := setattr ''gkbar_hh'' 0.036 (soma self)\<rparr>;
          self = self\<lparr>soma := setattr ''gl_hh'' 0.0003 (soma self)\<rparr>;
          self = self\<lparr>soma := setattr ''el_hh'' (-54.3) (soma self)\<rparr>;
          self = self\<lparr>dend := insert_mech ''pas'' (dend self)\<rparr>;
          self = self\<lparr>dend := setattr ''g_pas'' 0.001 (dend self)\<rparr>;
          self = self\<lparr>dend := setattr ''e_pas'' (-65) (dend self)\<rparr>
      in self)"

text \<open>\<^verbatim>\<open>HHCell()\<close>\<close>

definition HHCell_init :: "hoc \<Rightarrow> HHCell \<times> hoc" where
  "HHCell_init h =
     (let ((s, d), h1) = create_sections h;
          self = \<lparr>synlist = [], nclist = [], nslist = [], soma = s, dend = d, stim = None,
                  soma_v_vec = None, dend_v_vec = None, t_vec = None, cell_x = None, cell_y = None\<rparr>;
          self = build_topology self;
          self = define_geometry self;
          self = define_biophysics self
      in (self, h1))"

definition add_current_stim :: "HHCell \<Rightarrow> real \<Rightarrow> HHCell" where
  "add_current_stim self dly =
     (let self = self\<lparr>stim := Some (IClamp (sec_id (dend self), 1.0))\<rparr>;
          self = self\<lparr>stim := map_option (\<lambda>s. s\<lparr>amp := 0.3\<rparr>) (stim self)\<rparr>;
          self = self\<lparr>stim := map_option (\<lambda>s. s\<lparr>delay := dly\<rparr>) (stim self)\<rparr>;
          self = self\<lparr>stim := map_option (\<lambda>s. s\<lparr>dur := 1\<rparr>) (stim self)\<rparr>
      in self)"

definition set_recording :: "HHCell \<Rightarrow> hoc \<Rightarrow> HHCell \<times> hoc" where
  "set_recording self h =
     (let (sv, h1) = Vector h;
          (dv, h2) = Vector h1;
          (tv, h3) = Vector h2;
          self = self\<lparr>soma_v_vec := Some sv, dend_v_vec := Some dv, t_vec := Some tv\<rparr>;
          h4 = vec_record sv (Ref_v (sec_id (soma self), 0.5)) h3;
          h5 = vec_record dv (Ref_v (sec_id (dend self), 0.5)) h4;
          h6 = vec_record tv Ref_t h5
      in (self, h6))"

definition create_synapse :: "HHCell \<Rightarrow> real \<Rightarrow> real \<Rightarrow> real \<Rightarrow> HHCell" where
  "create_synapse self loc tau0 e0 =
     (let syn = ExpSyn (sec_id (dend self), loc);
          syn = syn\<lparr>syn_tau := tau0\<rparr>;
          syn = syn\<lparr>syn_e := e0\<rparr>
      in self\<lparr>synlist := synlist self @ [syn]\<rparr>)"

definition connect2pre :: "HHCell \<Rightarrow> HHCell \<Rightarrow> int \<Rightarrow> real \<Rightarrow> real \<Rightarrow> py_error + HHCell" where
  "connect2pre self preCell synid dly weight =
     (case py_getitem (synlist self) synid of
        Inl err \<Rightarrow> Inl err
      | Inr syn \<Rightarrow>
          (let nc = NetCon (sec_id (soma preCell), 0.5) (Some syn) (sec_id (soma preCell));
               nc = nc\<lparr>nc_delay := dly\<rparr>;
               nc = nc\<lparr>nc_weight := weight\<rparr>
           in Inr (self\<lparr>nclist := nclist self @ [nc]\<rparr>)))"

text \<open>\<^verbatim>\<open>connect2pre\<close> of \<^verbatim>\<open>tutorial_4a.py\<close>: the connection is a local variable and is
  not appended to any list; the method returns the connection it built here so that it
  can be inspected, and leaves the cell as it was.\<close>

definition connect2pre_4a :: "HHCell \<Rightarrow> HHCell \<Rightarrow> int \<Rightarrow> real \<Rightarrow> real \<Rightarrow> py_error + (netcon \<times> HHCell)" where
  "connect2pre_4a self preCell synid dly weight =
     (case py_getitem (synlist self) synid of
        Inl err \<Rightarrow> Inl err
      | Inr syn \<Rightarrow>
          (let nc = NetCon (sec_id (soma preCell), 0.5) (Some syn) (sec_id (soma preCell));
               nc = nc\<lparr>nc_delay := dly\<rparr>;
               nc = nc\<lparr>nc_weight := weight\<rparr>
           in Inr (nc, self)))"

definition set_position :: "HHCell \<Rightarrow> real \<Rightarrow> real \<Rightarrow> HHCell" where
  "set_position self x0 y0 = (let self = self\<lparr>cell_x := Some x0\<rparr>; self = self\<lparr>cell_y := Some y0\<rparr> in self)"

subsection \<open>The plotting library\<close>

text \<open>
  matplotlib's \<^verbatim>\<open>pyplot\<close> keeps a list of figures, the last one being the current figure;
  the calls the scripts make are modelled by what they leave on it. A figure handle is the
  figure's position in that list. Where a call is made with no figure open, pyplot opens
  one of the default size first.
\<close>

record line2d =
  ln_x :: "real list"
  ln_y :: "real list"
  ln_color :: string
  ln_label :: string

record scatter =
  sc_x :: "real list"
  sc_y :: "real list"
  sc_s :: real
  sc_marker :: "string option"
  sc_c :: "string option"

record figure =
  fig_size :: "real \<times> real"
  fig_lines :: "line2d list"
  fig_scatters :: "scatter list"
  fig_legend :: bool
  fig_xlabel :: string
  fig_ylabel :: string
  fig_xlim :: "(real \<times> real) option"
  fig_ylim :: "(real \<times> real) option"
  fig_title :: string

record plt =
  figures :: "figure list"
  shown :: nat

definition plt_init :: plt where
  "plt_init = \<lparr>figures = [], shown = 0\<rparr>"

definition new_figure :: "real \<times> real \<Rightarrow> figure" where
  "new_figure sz = \<lparr>fig_size = sz, fig_lines = [], fig_scatters = [], fig_legend = False,
     fig_xlabel = [], fig_ylabel = [], fig_xlim = None, fig_ylim = None, fig_title = []\<rparr>"

definition plt_figure :: "real \<times> real \<Rightarrow> plt \<Rightarrow> nat \<times> plt" where
  "plt_figure sz p = (length (figures p), p\<lparr>figures := figures p @ [new_figure sz]\<rparr>)"

definition on_gcf :: "(figure \<Rightarrow> figure) \<Rightarrow> plt \<Rightarrow> plt" where
  "on_gcf f p =
     (if figures p = [] then p\<lparr>figures := [f (new_figure (6.4, 4.8))]\<rparr>
      else p\<lparr>figures := butlast (figures p) @ [f (last (figures p))]\<rparr>)"

definition plt_plot :: "real list \<Rightarrow> real list \<Rightarrow> string \<Rightarrow> string \<Rightarrow> plt \<Rightarrow> plt" where
  "plt_plot xs ys color label =
     on_gcf (\<lambda>f. f\<lparr>fig_lines := fig_lines f @
        [\<lparr>ln_x = xs, ln_y = ys, ln_color = color, ln_label = label\<rparr>]\<rparr>)"

definition plt_scatter :: "real list \<Rightarrow> real list \<Rightarrow> real \<Rightarrow> string option \<Rightarrow> string option \<Rightarrow> plt \<Rightarrow> plt" where
  "plt_scatter xs ys s marker c =
     on_gcf (\<lambda>f. f\<lparr>fig_scatters := fig_scatters f @
        [\<lparr>sc_x = xs, sc_y = ys, sc_s = s, sc_marker = marker, sc_c = c\<rparr>]\<rparr>)"

definition plt_legend :: "plt \<Rightarrow> plt" where
  "plt_legend = on_gcf (\<lambda>f. f\<lparr>fig_legend := True\<rparr>)"

definition plt_xlabel :: "string \<Rightarrow> plt \<Rightarrow> plt" where
  "plt_xlabel l = on_gcf (\<lambda>f. f\<lparr>fig_xlabel := l\<rparr>)"

definition plt_ylabel :: "string \<Rightarrow> plt \<Rightarrow> plt" where
  "plt_ylabel l = on_gcf (\<lambda>f. f\<lparr>fig_ylabel := l\<rparr>)"

text \<open>\<^verbatim>\<open>plt.xlim(...)\<close>, \<^verbatim>\<open>plt.ylim(...)\<close>: \<^verbatim>\<open>None\<close> leaves the limits as they are.\<close>

definition plt_xlim :: "(real \<times> real) option \<Rightarrow> plt \<Rightarrow> plt" where
  "plt_xlim l = on_gcf (\<lambda>f. case l of None \<Rightarrow> f | Some v \<Rightarrow> f\<lparr>fig_xlim := Some v\<rparr>)"

definition plt_ylim :: "(real \<times> real) option \<Rightarrow> plt \<Rightarrow> plt" where
  "plt_ylim l = on_gcf (\<lambda>f. case l of None \<Rightarrow> f | Some v \<Rightarrow> f\<lparr>fig_ylim := Some v\<rparr>)"

definition plt_title :: "string \<Rightarrow> plt \<Rightarrow> plt" where
  "plt_title t = on_gcf (\<lambda>f. f\<lparr>fig_title := t\<rparr>)"

definition plt_show :: "plt \<Rightarrow> plt" where
  "plt_show p = p\<lparr>shown := Suc (shown p)\<rparr>"

text \<open>
  \<^verbatim>\<open>plot_voltage\<close> reads the cell and the engine's vectors and writes to the plotting
  library only; it returns the figure handle. The attributes \<^verbatim>\<open>t_vec\<close>,
  \<^verbatim>\<open>soma_v_vec\<close>, \<^verbatim>\<open>dend_v_vec\<close> are read in the order of the source.
\<close>

definition plot_voltage ::
  "HHCell \<Rightarrow> string \<Rightarrow> (real \<times> real) option \<Rightarrow> bool \<Rightarrow> hoc \<Rightarrow> plt \<Rightarrow> py_error + (nat \<times> plt)" where
  "plot_voltage self title ylim show h p =
     (let (fig, p) = plt_figure (8, 4) p in
      case t_vec self of None \<Rightarrow> Inl AttributeError | Some tv \<Rightarrow>
      case soma_v_vec self of None \<Rightarrow> Inl AttributeError | Some sv \<Rightarrow>
      (let p = plt_plot (vec_data h tv) (vec_data h sv) ''black'' ''soma(0.5)'' p in
       case dend_v_vec self of None \<Rightarrow> Inl AttributeError | Some dv \<Rightarrow>
       (let p = plt_plot (vec_data h tv) (vec_data h dv) ''red'' ''dend(0.5)'' p;
            p = plt_legend p;
            p = plt_xlabel ''time (ms)'' p;
            p = plt_ylabel ''mV'' p;
            p = plt_ylim ylim p;
            p = plt_title title p;
            p = (if show then plt_show p else p)
        in Inr (fig, p))))"

subsection \<open>The random generator\<close>

text \<open>
  numpy's global generator is external. It is a parameter \<open>mt\<close> of the model: \<open>mt s k\<close> is
  the \<open>k\<close>-th number of the stream that \<^verbatim>\<open>np.random.seed(s)\<close> starts, and the state of the
  generator is the seed and the count of numbers drawn since. \<^verbatim>\<open>np.random.uniform(low,
  high, n)\<close> draws \<open>n\<close> numbers \<open>u\<close> and returns \<open>low + (high - low) * u\<close> for each.
\<close>

record rng_state =
  rng_seed :: nat
  rng_pos :: nat

definition np_random_seed :: "nat \<Rightarrow> rng_state \<Rightarrow> rng_state" where
  "np_random_seed s rng = \<lparr>rng_seed = s, rng_pos = 0\<rparr>"

definition np_random_uniform ::
  "(nat \<Rightarrow> nat \<Rightarrow> real) \<Rightarrow> real \<Rightarrow> real \<Rightarrow> nat \<Rightarrow> rng_state \<Rightarrow> real list \<times> rng_state" where
  "np_random_uniform mt low high n rng =
     (map (\<lambda>k. low + (high - low) * mt (rng_seed rng) (rng_pos rng + k)) [0..<n],
      rng\<lparr>rng_pos := rng_pos rng + n\<rparr>)"

subsection \<open>Pop\<close>

record Pop =
  spkt :: obj_id
  spkid :: obj_id
  cells :: "HHCell list"

definition Pop_size :: "real \<times> real" where
  "Pop_size = (100, 100)"

text \<open>
  The number of cells is a natural number (the script passes 100 and 40), and the two
  ranges are Python lists, read at the indices 0 and 1.

  The body of the loop of \<^verbatim>\<open>create_cells\<close> for the index \<open>i\<close>. \<^verbatim>\<open>create_synapse()\<close> is
  called with its defaults \<^verbatim>\<open>loc=0.5, tau=2, e=0\<close>. \<open>xPoss\<close> and \<open>yPoss\<close> have \<open>numCells\<close>
  elements and \<open>i < numCells\<close>, so \<open>xPoss ! i\<close> is in range. The \<^verbatim>\<open>print\<close> is not modelled.
\<close>

definition create_cell :: "real list \<Rightarrow> real list \<Rightarrow> nat \<Rightarrow> Pop \<Rightarrow> hoc \<Rightarrow> Pop \<times> hoc" where
  "create_cell xPoss yPoss i self h =
     (let (cell, h) = HHCell_init h;
          (cell, h) = set_recording cell h;
          cell = create_synapse cell 0.5 2 0;
          cell = set_position cell (xPoss ! i) (yPoss ! i);
          nc = NetCon (sec_id (soma cell), 0.5) None (sec_id (soma cell));
          h = nc_record nc (spkt self) (spkid self) i h;
          self = self\<lparr>cells := cells self @ [cell]\<rparr>
      in (self, h))"

fun create_cells_loop :: "real list \<Rightarrow> real list \<Rightarrow> nat list \<Rightarrow> Pop \<Rightarrow> hoc \<Rightarrow> Pop \<times> hoc" where
  "create_cells_loop xPoss yPoss [] self h = (self, h)"
| "create_cells_loop xPoss yPoss (i # is) self h =
     (let (self, h) = create_cell xPoss yPoss i self h
      in create_cells_loop xPoss yPoss is self h)"

definition create_cells ::
  "(nat \<Rightarrow> nat \<Rightarrow> real) \<Rightarrow> Pop \<Rightarrow> nat \<Rightarrow> real list \<Rightarrow> real list \<Rightarrow> hoc \<Rightarrow> rng_state
     \<Rightarrow> py_error + (Pop \<times> hoc \<times> rng_state)" where
  "create_cells mt self numCells xNormRange yNormRange h rng =
     (let self = self\<lparr>cells := []\<rparr> in
      case py_getitem xNormRange 0 of Inl err \<Rightarrow> Inl err | Inr xlo \<Rightarrow>
      case py_getitem xNormRange 1 of Inl err \<Rightarrow> Inl err | Inr xhi \<Rightarrow>
      (let xMin = fst Pop_size * xlo;
           xMax = fst Pop_size * xhi;
           (xPoss, rng) = np_random_uniform mt xMin xMax numCells rng in
       case py_getitem yNormRange 0 of Inl err \<Rightarrow> Inl err | Inr ylo \<Rightarrow>
       case py_getitem yNormRange 1 of Inl err \<Rightarrow> Inl err | Inr yhi \<Rightarrow>
       (let yMin = snd Pop_size * ylo;
            yMax = snd Pop_size * yhi;
            (yPoss, rng) = np_random_uniform mt yMin yMax numCells rng;
            (self, h) = create_cells_loop xPoss yPoss [0..<numCells] self h
        in Inr (self, h, rng))))"

text \<open>\<^verbatim>\<open>Pop(numCells, xNormRange, yNormRange)\<close>; \<^verbatim>\<open>self.cells\<close> is assigned by
  \<^verbatim>\<open>create_cells\<close>.\<close>

definition Pop_init ::
  "(nat \<Rightarrow> nat \<Rightarrow> real) \<Rightarrow> nat \<Rightarrow> real list \<Rightarrow> real list \<Rightarrow> hoc \<Rightarrow> rng_state
     \<Rightarrow> py_error + (Pop \<times> hoc \<times> rng_state)" where
  "Pop_init mt numCells xNormRange yNormRange h rng =
     (let (tv, h) = Vector h;
          (iv, h) = Vector h;
          self = \<lparr>spkt = tv, spkid = iv, cells = []\<rparr>
      in create_cells mt self numCells xNormRange yNormRange h rng)"

text \<open>\<^verbatim>\<open>[cell.x for cell in self.cells]\<close>: fails on the first cell with no position.\<close>

fun get_all :: "('a \<Rightarrow> 'b option) \<Rightarrow> 'a list \<Rightarrow> py_error + 'b list" where
  "get_all f [] = Inr []"
| "get_all f (c # cs) =
     (case f c of None \<Rightarrow> Inl AttributeError
      | Some v \<Rightarrow> (case get_all f cs of Inl err \<Rightarrow> Inl err | Inr vs \<Rightarrow> Inr (v # vs)))"

definition plot_net :: "Pop \<Rightarrow> bool \<Rightarrow> plt \<Rightarrow> py_error + plt" where
  "plot_net self show p =
     (let p = plt_xlim (Some (0, fst Pop_size)) p;
          p = plt_ylim (Some (0, snd Pop_size)) p in
      case get_all cell_x (cells self) of Inl err \<Rightarrow> Inl err | Inr posX \<Rightarrow>
      case get_all cell_y (cells self) of Inl err \<Rightarrow> Inl err | Inr posY \<Rightarrow>
      (let p = plt_scatter posX posY 40 None None p;
           p = (if show then plt_show p else p)
       in Inr p))"

definition plot_raster :: "Pop \<Rightarrow> string \<Rightarrow> bool \<Rightarrow> hoc \<Rightarrow> plt \<Rightarrow> plt" where
  "plot_raster self color show h p =
     (let (fig, p) = plt_figure (6.4, 4.8) p;
          p = plt_scatter (vec_data h (spkt self)) (vec_data h (spkid self)) 100 (Some ''|'') (Some color) p;
          p = plt_xlabel ''time (ms)'' p;
          p = plt_ylabel ''cell id'' p;
          p = plt_title ''Network raster'' p;
          p = (if show then plt_show p else p)
      in p)"

subsection \<open>Running the engine\<close>

text \<open>
  \<^verbatim>\<open>h.init(); h.run()\<close> is the engine's integration. What it computes is a parameter, a
  \<open>simulation\<close>: the samples of every variable that can be recorded, and the threshold
  crossings in the order they happen. The run empties the vectors registered for
  recording, fills each with the samples of its variable, and logs each crossing in the
  vectors of every spike record of its source. It touches the engine state only.
\<close>

record simulation =
  sim_samples :: "ref \<Rightarrow> real list"
  sim_crossings :: "(real \<times> segment) list"

definition h_init :: "hoc \<Rightarrow> hoc" where
  "h_init h = h\<lparr>vec_data := (\<lambda>v.
      if v \<in> fst ` set (recordings h) \<or> v \<in> sr_tvec ` set (spike_records h)
         \<or> v \<in> sr_idvec ` set (spike_records h)
      then [] else vec_data h v)\<rparr>"

fun fill_recordings :: "(ref \<Rightarrow> real list) \<Rightarrow> (obj_id \<times> ref) list \<Rightarrow> (obj_id \<Rightarrow> real list) \<Rightarrow> (obj_id \<Rightarrow> real list)" where
  "fill_recordings smp [] vd = vd"
| "fill_recordings smp ((v, r) # rs) vd = fill_recordings smp rs (vd(v := smp r))"

fun log_spike :: "real \<times> segment \<Rightarrow> spike_record list \<Rightarrow> (obj_id \<Rightarrow> real list) \<Rightarrow> (obj_id \<Rightarrow> real list)" where
  "log_spike ev [] vd = vd"
| "log_spike ev (r # rs) vd =
     (if sr_source r = snd ev
      then log_spike ev rs
             ((vd(sr_tvec r := vd (sr_tvec r) @ [fst ev]))
                (sr_idvec r := (vd(sr_tvec r := vd (sr_tvec r) @ [fst ev])) (sr_idvec r) @ [real (sr_id r)]))
      else log_spike ev rs vd)"

fun log_spikes :: "(real \<times> segment) list \<Rightarrow> spike_record list \<Rightarrow> (obj_id \<Rightarrow> real list) \<Rightarrow> (obj_id \<Rightarrow> real list)" where
  "log_spikes [] rs vd = vd"
| "log_spikes (ev # evs) rs vd = log_spikes evs rs (log_spike ev rs vd)"

definition h_run :: "simulation \<Rightarrow> hoc \<Rightarrow> hoc" where
  "h_run sim h =
     (let h = h_init h;
          h = h\<lparr>vec_data := fill_recordings (sim_samples sim) (recordings h) (vec_data h)\<rparr>;
          h = h\<lparr>vec_data := log_spikes (sim_crossings sim) (spike_records h) (vec_data h)\<rparr>
      in h)"


subsection \<open>The operations on a cell and on a population\<close>

text \<open>
  The methods a script can call on a cell after \<^verbatim>\<open>HHCell()\<close>, as one step function on
  the cell, the engine and the plotting library. A failing call leaves an error.
\<close>

datatype cell_op =
    Create_sections
  | Build_topology
  | Define_geometry
  | Define_biophysics
  | Add_current_stim real
  | Set_recording
  | Plot_voltage string "(real \<times> real) option" bool
  | Create_synapse real real real
  | Connect2pre HHCell int real real
  | Set_position real real

fun cell_step :: "cell_op \<Rightarrow> HHCell \<times> hoc \<times> plt \<Rightarrow> py_error + (HHCell \<times> hoc \<times> plt)" where
  "cell_step Create_sections (c, h, p) =
     (let ((s, d), h1) = create_sections h in Inr (c\<lparr>soma := s, dend := d\<rparr>, h1, p))"
| "cell_step Build_topology (c, h, p) = Inr (build_topology c, h, p)"
| "cell_step Define_geometry (c, h, p) = Inr (define_geometry c, h, p)"
| "cell_step Define_biophysics (c, h, p) = Inr (define_biophysics c, h, p)"
| "cell_step (Add_current_stim d) (c, h, p) = Inr (add_current_stim c d, h, p)"
| "cell_step Set_recording (c, h, p) = (let (c1, h1) = set_recording c h in Inr (c1, h1, p))"
| "cell_step (Plot_voltage title ylim show) (c, h, p) =
     (case plot_voltage c title ylim show h p of
        Inl err \<Rightarrow> Inl err
      | Inr (fig, p1) \<Rightarrow> Inr (c, h, p1))"
| "cell_step (Create_synapse loc tau0 e0) (c, h, p) = Inr (create_synapse c loc tau0 e0, h, p)"
| "cell_step (Connect2pre preCell synid d w) (c, h, p) =
     (case connect2pre c preCell synid d w of
        Inl err \<Rightarrow> Inl err
      | Inr c1 \<Rightarrow> Inr (c1, h, p))"
| "cell_step (Set_position x0 y0) (c, h, p) = Inr (set_position c x0 y0, h, p)"

fun cell_steps :: "cell_op list \<Rightarrow> HHCell \<times> hoc \<times> plt \<Rightarrow> py_error + (HHCell \<times> hoc \<times> plt)" where
  "cell_steps [] w = Inr w"
| "cell_steps (a # as) w =
     (case cell_step a w of Inl err \<Rightarrow> Inl err | Inr w1 \<Rightarrow> cell_steps as w1)"

text \<open>
  The operations on a population: a method of the cell \<^verbatim>\<open>pop.cells[i]\<close>, the two plots
  of the population, and a run of the engine.
\<close>

datatype pop_op =
    On_cell int cell_op
  | Plot_net bool
  | Plot_raster string bool
  | Run simulation

fun pop_step :: "pop_op \<Rightarrow> Pop \<times> hoc \<times> plt \<Rightarrow> py_error + (Pop \<times> hoc \<times> plt)" where
  "pop_step (On_cell i a) (pop, h, p) =
     (case py_getitem (cells pop) i of
        Inl err \<Rightarrow> Inl err
      | Inr c \<Rightarrow>
          (case cell_step a (c, h, p) of
             Inl err \<Rightarrow> Inl err
           | Inr (c1, h1, p1) \<Rightarrow>
               Inr (pop\<lparr>cells := (cells pop)
                      [(if 0 \<le> i then nat i else nat (int (length (cells pop)) + i)) := c1]\<rparr>, h1, p1)))"
| "pop_step (Plot_net show) (pop, h, p) =
     (case plot_net pop show p of Inl err \<Rightarrow> Inl err | Inr p1 \<Rightarrow> Inr (pop, h, p1))"
| "pop_step (Plot_raster color show) (pop, h, p) = Inr (pop, h, plot_raster pop color show h p)"
| "pop_step (Run sim) (pop, h, p) = Inr (pop, h_run sim h, p)"

fun pop_steps :: "pop_op list \<Rightarrow> Pop \<times> hoc \<times> plt \<Rightarrow> py_error + (Pop \<times> hoc \<times> plt)" where
  "pop_steps [] w = Inr w"
| "pop_steps (a # as) w =
     (case pop_step a w of Inl err \<Rightarrow> Inl err | Inr w1 \<Rightarrow> pop_steps as w1)"

subsection \<open>The script of tutorial 4b, up to the two populations\<close>

definition tutorial_4b_pops ::
  "(nat \<Rightarrow> nat \<Rightarrow> real) \<Rightarrow> rng_state \<Rightarrow> py_error + (Pop \<times> Pop \<times> hoc \<times> rng_state)" where
  "tutorial_4b_pops mt rng0 =
     (let rng = np_random_seed 111 rng0 in
      case Pop_init mt 100 [0.0, 1.0] [0.2, 1] hoc_init rng of
        Inl err \<Rightarrow> Inl err
      | Inr (popExc, h, rng) \<Rightarrow>
          (case Pop_init mt 40 [0.0, 1.0] [0, 0.33] h rng of
             Inl err \<Rightarrow> Inl err
           | Inr (popInh, h, rng) \<Rightarrow> Inr (popExc, popInh, h, rng)))"

subsection \<open>Concrete inputs\<close>

definition one_syn_cell :: HHCell where
  "one_syn_cell = create_synapse (fst (HHCell_init hoc_init)) 0.5 2 0"

definition two_syn_cell :: HHCell where
  "two_syn_cell = create_synapse one_syn_cell 0.5 2 (-80)"

text \<open>A generator that always returns one half, and a population of one cell made with
  it in the fresh engine, after \<^verbatim>\<open>np.random.seed(111)\<close>.\<close>

definition demo_mt :: "nat \<Rightarrow> nat \<Rightarrow> real" where
  "demo_mt s k = 1 / 2"

definition demo_pop :: "py_error + (Pop \<times> hoc \<times> rng_state)" where
  "demo_pop = Pop_init demo_mt 1 [0.0, 1.0] [0.2, 1] hoc_init (np_random_seed 111 \<lparr>rng_seed = 0, rng_pos = 0\<rparr>)"

text \<open>Operations on that population, none of them \<^verbatim>\<open>set_position\<close>.\<close>

definition demo_ops :: "pop_op list" where
  "demo_ops = [On_cell 0 (Add_current_stim 10),
               Run \<lparr>sim_samples = (\<lambda>r. []), sim_crossings = []\<rparr>,
               Plot_raster ''blue'' False]"



section \<open>Properties\<close>

subsection \<open>Helper facts\<close>

lemma py_getitem_nonneg:
  "0 \<le> i \<Longrightarrow> py_getitem xs i = (if i < int (length xs) then Inr (xs ! nat i) else Inl IndexError)"
  by (simp add: py_getitem_def)

lemma py_getitem_fails_iff:
  "(py_getitem xs i = Inl IndexError) = (int (length xs) \<le> i \<or> i < - int (length xs))"
  by (auto simp: py_getitem_def)

lemma py_getitem_Inl: "py_getitem xs i = Inl err \<Longrightarrow> err = IndexError"
  by (auto simp: py_getitem_def split: if_splits)

lemma py_getitem_last:
  "xs \<noteq> [] \<Longrightarrow> py_getitem xs (- 1) = Inr (last xs)"
proof -
  assume ne: "xs \<noteq> []"
  then have len: "Suc 0 \<le> length xs" by (cases xs) simp_all
  have "nat (int (length xs) + (- 1)) = length xs - 1" by simp
  with ne len show ?thesis
    by (simp add: py_getitem_def last_conv_nth)
qed

lemmas engine_defs = Section_def connect_def insert_mech_def setattr_def
lemmas ctor_defs = create_sections_def build_topology_def define_geometry_def
  define_biophysics_def HHCell_init_def

lemma HHCell_init_soma:
  "soma (fst (HHCell_init h)) =
     \<lparr>sec_id = next_id h, sec_name = ''soma'',
      attrs = [''L'' \<mapsto> 12.6157, ''diam'' \<mapsto> 12.6157, ''Ra'' \<mapsto> 100, ''cm'' \<mapsto> 1,
               ''gnabar_hh'' \<mapsto> 0.12, ''gkbar_hh'' \<mapsto> 0.036, ''gl_hh'' \<mapsto> 0.0003,
               ''el_hh'' \<mapsto> -54.3],
      mechs = [''hh''], parentseg = None, connect_calls = 0\<rparr>"
  by (simp add: ctor_defs engine_defs Let_def)

lemma HHCell_init_dend:
  "dend (fst (HHCell_init h)) =
     \<lparr>sec_id = Suc (next_id h), sec_name = ''dend'',
      attrs = [''L'' \<mapsto> 200, ''diam'' \<mapsto> 1, ''nseg'' \<mapsto> 9, ''Ra'' \<mapsto> 100, ''cm'' \<mapsto> 1,
               ''g_pas'' \<mapsto> 0.001, ''e_pas'' \<mapsto> -65],
      mechs = [''pas''], parentseg = Some ((next_id h, 1), 0), connect_calls = 1\<rparr>"
  by (simp add: ctor_defs engine_defs Let_def)

lemma HHCell_init_rest:
  "synlist (fst (HHCell_init h)) = []"
  "nclist (fst (HHCell_init h)) = []"
  "stim (fst (HHCell_init h)) = None"
  "t_vec (fst (HHCell_init h)) = None"
  "soma_v_vec (fst (HHCell_init h)) = None"
  "dend_v_vec (fst (HHCell_init h)) = None"
  "cell_x (fst (HHCell_init h)) = None"
  "cell_y (fst (HHCell_init h)) = None"
  "snd (HHCell_init h) = h\<lparr>next_id := Suc (Suc (next_id h))\<rparr>"
  by (simp_all add: ctor_defs engine_defs Let_def)

lemma connect2pre_ok:
  "py_getitem (synlist self) synid = Inr syn \<Longrightarrow>
   connect2pre self preCell synid d w =
     Inr (self\<lparr>nclist := nclist self @
            [\<lparr>nc_source = (sec_id (soma preCell), 0.5), nc_target = Some syn,
              nc_sec = sec_id (soma preCell), nc_delay = d, nc_weight = w\<rparr>]\<rparr>)"
  by (simp add: connect2pre_def NetCon_def)

lemma connect2pre_4a_ok:
  "py_getitem (synlist self) synid = Inr syn \<Longrightarrow>
   connect2pre_4a self preCell synid d w =
     Inr (\<lparr>nc_source = (sec_id (soma preCell), 0.5), nc_target = Some syn,
           nc_sec = sec_id (soma preCell), nc_delay = d, nc_weight = w\<rparr>, self)"
  by (simp add: connect2pre_4a_def NetCon_def)

lemma connect2pre_fails_iff:
  "(connect2pre self preCell synid d w = Inl err) = (py_getitem (synlist self) synid = Inl err)"
  by (simp add: connect2pre_def Let_def split: sum.splits)

lemma connect2pre_4a_fails_iff:
  "(connect2pre_4a self preCell synid d w = Inl err) = (py_getitem (synlist self) synid = Inl err)"
  by (simp add: connect2pre_4a_def Let_def split: sum.splits)

lemma one_syn_cell_synlist:
  "synlist one_syn_cell = [\<lparr>syn_seg = (1, 0.5), syn_tau = 2, syn_e = 0\<rparr>]"
  by (simp add: one_syn_cell_def create_synapse_def ExpSyn_def HHCell_init_rest
      HHCell_init_dend hoc_init_def Let_def)

lemma two_syn_cell_synlist:
  "synlist two_syn_cell =
     [\<lparr>syn_seg = (1, 0.5), syn_tau = 2, syn_e = 0\<rparr>, \<lparr>syn_seg = (1, 0.5), syn_tau = 2, syn_e = -80\<rparr>]"
  by (simp add: two_syn_cell_def one_syn_cell_synlist create_synapse_def ExpSyn_def
      one_syn_cell_def HHCell_init_dend HHCell_init_rest hoc_init_def Let_def)

subsection \<open>Connecting by synapse index\<close>

text \<open>
  Claim C1. For every cell and every call \<^verbatim>\<open>connect2pre(source_cell, synapse_index, delay,
  weight)\<close>: if the cell's synapse list has exactly one synapse, the call with index 0
  succeeds and creates a connection whose target is that synapse (in \<^verbatim>\<open>tutorial_4b.py\<close>
  the connection is appended to \<^verbatim>\<open>nclist\<close>), and the call with index 1 fails with an
  \<open>IndexError\<close>; the call fails with an \<open>IndexError\<close> whenever the index exceeds the
  number of synapses. Both variants of the method behave so.
\<close>

theorem connect2pre_by_index:
  "(length (synlist self) = 1 \<longrightarrow>
      connect2pre self preCell 0 d w =
        Inr (self\<lparr>nclist := nclist self @
               [\<lparr>nc_source = (sec_id (soma preCell), 0.5), nc_target = Some (hd (synlist self)),
                 nc_sec = sec_id (soma preCell), nc_delay = d, nc_weight = w\<rparr>]\<rparr>) \<and>
      connect2pre self preCell 1 d w = Inl IndexError \<and>
      connect2pre_4a self preCell 0 d w =
        Inr (\<lparr>nc_source = (sec_id (soma preCell), 0.5), nc_target = Some (hd (synlist self)),
              nc_sec = sec_id (soma preCell), nc_delay = d, nc_weight = w\<rparr>, self) \<and>
      connect2pre_4a self preCell 1 d w = Inl IndexError) \<and>
   (int (length (synlist self)) < synid \<longrightarrow>
      connect2pre self preCell synid d w = Inl IndexError \<and>
      connect2pre_4a self preCell synid d w = Inl IndexError)"
proof (intro conjI impI)
  assume one: "length (synlist self) = 1"
  then have get0: "py_getitem (synlist self) 0 = Inr (hd (synlist self))"
    by (cases "synlist self") (simp_all add: py_getitem_def)
  from one have get1: "py_getitem (synlist self) 1 = Inl IndexError"
    by (simp add: py_getitem_fails_iff)
  show "connect2pre self preCell 0 d w =
        Inr (self\<lparr>nclist := nclist self @
               [\<lparr>nc_source = (sec_id (soma preCell), 0.5), nc_target = Some (hd (synlist self)),
                 nc_sec = sec_id (soma preCell), nc_delay = d, nc_weight = w\<rparr>]\<rparr>)"
    by (rule connect2pre_ok [OF get0])
  show "connect2pre self preCell 1 d w = Inl IndexError"
    by (simp add: connect2pre_fails_iff get1)
  show "connect2pre_4a self preCell 0 d w =
        Inr (\<lparr>nc_source = (sec_id (soma preCell), 0.5), nc_target = Some (hd (synlist self)),
              nc_sec = sec_id (soma preCell), nc_delay = d, nc_weight = w\<rparr>, self)"
    by (rule connect2pre_4a_ok [OF get0])
  show "connect2pre_4a self preCell 1 d w = Inl IndexError"
    by (simp add: connect2pre_4a_fails_iff get1)
next
  assume "int (length (synlist self)) < synid"
  then have "py_getitem (synlist self) synid = Inl IndexError"
    by (simp add: py_getitem_fails_iff)
  then show "connect2pre self preCell synid d w = Inl IndexError"
    by (simp add: connect2pre_fails_iff)
next
  assume "int (length (synlist self)) < synid"
  then have "py_getitem (synlist self) synid = Inl IndexError"
    by (simp add: py_getitem_fails_iff)
  then show "connect2pre_4a self preCell synid d w = Inl IndexError"
    by (simp add: connect2pre_4a_fails_iff)
qed

theorem connect2pre_by_index_witness:
  "length (synlist one_syn_cell) = 1 \<and>
   (\<exists>c. connect2pre one_syn_cell one_syn_cell 0 2 1 = Inr c \<and>
        nc_target (last (nclist c)) = Some \<lparr>syn_seg = (1, 0.5), syn_tau = 2, syn_e = 0\<rparr>) \<and>
   connect2pre one_syn_cell one_syn_cell 1 2 1 = Inl IndexError \<and>
   int (length (synlist one_syn_cell)) < 5 \<and>
   connect2pre one_syn_cell one_syn_cell 5 2 1 = Inl IndexError"
  using connect2pre_by_index [of one_syn_cell one_syn_cell 2 1 5]
  by (simp add: one_syn_cell_synlist)

text \<open>
  Claim C10. For every cell whose synapse list is not empty, \<^verbatim>\<open>connect2pre\<close> with index
  \<open>-1\<close> succeeds and wires the connection to the last synapse of the list, the most
  recently created one; the call fails, and then with an \<open>IndexError\<close>, exactly when the
  index is at least the number of synapses or below minus that number.
\<close>

theorem connect2pre_negative_index:
  "(synlist self \<noteq> [] \<longrightarrow>
      connect2pre self preCell (- 1) d w =
        Inr (self\<lparr>nclist := nclist self @
               [\<lparr>nc_source = (sec_id (soma preCell), 0.5), nc_target = Some (last (synlist self)),
                 nc_sec = sec_id (soma preCell), nc_delay = d, nc_weight = w\<rparr>]\<rparr>) \<and>
      connect2pre_4a self preCell (- 1) d w =
        Inr (\<lparr>nc_source = (sec_id (soma preCell), 0.5), nc_target = Some (last (synlist self)),
              nc_sec = sec_id (soma preCell), nc_delay = d, nc_weight = w\<rparr>, self)) \<and>
   ((\<exists>err. connect2pre self preCell synid d w = Inl err) =
      (int (length (synlist self)) \<le> synid \<or> synid < - int (length (synlist self)))) \<and>
   ((\<exists>err. connect2pre_4a self preCell synid d w = Inl err) =
      (int (length (synlist self)) \<le> synid \<or> synid < - int (length (synlist self)))) \<and>
   ((connect2pre self preCell synid d w = Inl IndexError) =
      (int (length (synlist self)) \<le> synid \<or> synid < - int (length (synlist self)))) \<and>
   ((connect2pre_4a self preCell synid d w = Inl IndexError) =
      (int (length (synlist self)) \<le> synid \<or> synid < - int (length (synlist self))))"
proof -
  have any: "(\<exists>err. py_getitem (synlist self) synid = Inl err) =
      (py_getitem (synlist self) synid = Inl IndexError)"
    using py_getitem_Inl by blast
  show ?thesis
    by (intro conjI impI)
      (simp_all add: connect2pre_ok connect2pre_4a_ok py_getitem_last
        connect2pre_fails_iff connect2pre_4a_fails_iff any py_getitem_fails_iff)
qed

theorem connect2pre_negative_index_witness:
  "synlist two_syn_cell \<noteq> [] \<and>
   (\<exists>c. connect2pre two_syn_cell one_syn_cell (- 1) 2 1 = Inr c \<and>
        nc_target (last (nclist c)) = Some \<lparr>syn_seg = (1, 0.5), syn_tau = 2, syn_e = -80\<rparr>) \<and>
   (\<exists>err. connect2pre two_syn_cell one_syn_cell (- 3) 2 1 = Inl err)"
  using connect2pre_negative_index [of two_syn_cell one_syn_cell 2 1 "- 3"]
  by (simp add: two_syn_cell_synlist)

subsection \<open>The cell after construction\<close>

text \<open>
  Claim C3. After \<^verbatim>\<open>HHCell()\<close>, in whatever state the engine was, each compartment has
  exactly one of the two kinds of biophysics: the soma has the mechanism \<^verbatim>\<open>hh\<close> only,
  with \<^verbatim>\<open>gnabar_hh = 0.12\<close>, \<^verbatim>\<open>gkbar_hh = 0.036\<close>, \<^verbatim>\<open>gl_hh = 0.0003\<close>, \<^verbatim>\<open>el_hh = -54.3\<close>
  and no passive parameter; the dendrite has the mechanism \<^verbatim>\<open>pas\<close> only, with
  \<^verbatim>\<open>g_pas = 0.001\<close>, \<^verbatim>\<open>e_pas = -65\<close> and no active parameter; both have \<^verbatim>\<open>Ra = 100\<close> and
  \<^verbatim>\<open>cm = 1\<close>.
\<close>

theorem biophysics_after_construction:
  "mechs (soma (fst (HHCell_init h))) = [''hh''] \<and>
   attrs (soma (fst (HHCell_init h))) ''gnabar_hh'' = Some 0.12 \<and>
   attrs (soma (fst (HHCell_init h))) ''gkbar_hh'' = Some 0.036 \<and>
   attrs (soma (fst (HHCell_init h))) ''gl_hh'' = Some 0.0003 \<and>
   attrs (soma (fst (HHCell_init h))) ''el_hh'' = Some (-54.3) \<and>
   attrs (soma (fst (HHCell_init h))) ''g_pas'' = None \<and>
   attrs (soma (fst (HHCell_init h))) ''e_pas'' = None \<and>
   mechs (dend (fst (HHCell_init h))) = [''pas''] \<and>
   attrs (dend (fst (HHCell_init h))) ''g_pas'' = Some 0.001 \<and>
   attrs (dend (fst (HHCell_init h))) ''e_pas'' = Some (-65) \<and>
   attrs (dend (fst (HHCell_init h))) ''gnabar_hh'' = None \<and>
   attrs (dend (fst (HHCell_init h))) ''gkbar_hh'' = None \<and>
   attrs (dend (fst (HHCell_init h))) ''gl_hh'' = None \<and>
   attrs (dend (fst (HHCell_init h))) ''el_hh'' = None \<and>
   attrs (soma (fst (HHCell_init h))) ''Ra'' = Some 100 \<and>
   attrs (soma (fst (HHCell_init h))) ''cm'' = Some 1 \<and>
   attrs (dend (fst (HHCell_init h))) ''Ra'' = Some 100 \<and>
   attrs (dend (fst (HHCell_init h))) ''cm'' = Some 1"
  unfolding HHCell_init_soma HHCell_init_dend by simp

subsection \<open>The current stimulus\<close>

text \<open>
  Claim C5. For every cell and delay \<open>d\<close>, \<^verbatim>\<open>add_current_stim(d)\<close> leaves in \<^verbatim>\<open>self.stim\<close>
  a stimulus of amplitude 0.3, duration 1 and delay \<open>d\<close> at position 1.0 of the dendrite;
  after \<^verbatim>\<open>add_current_stim(d1); add_current_stim(d2)\<close> the cell holds the one stimulus of
  the second call, with delay \<open>d2\<close>.
\<close>

theorem add_current_stim_overwrites:
  "stim (add_current_stim c d) =
     Some \<lparr>ic_seg = (sec_id (dend c), 1), amp = 0.3, delay = d, dur = 1\<rparr> \<and>
   stim (add_current_stim (add_current_stim c d1) d2) =
     Some \<lparr>ic_seg = (sec_id (dend c), 1), amp = 0.3, delay = d2, dur = 1\<rparr>"
  by (simp add: add_current_stim_def IClamp_def Let_def)

subsection \<open>Facts about the loop of create_cells\<close>

lemma set_recording_cell:
  "fst (set_recording c h) =
     c\<lparr>soma_v_vec := Some (next_id h), dend_v_vec := Some (Suc (next_id h)),
       t_vec := Some (Suc (Suc (next_id h)))\<rparr>"
  by (simp add: set_recording_def Vector_def vec_record_def Let_def split_def)


lemma create_cell_pop:
  "spkt (fst (create_cell xP yP i self h)) = spkt self"
  "spkid (fst (create_cell xP yP i self h)) = spkid self"
  "length (cells (fst (create_cell xP yP i self h))) = Suc (length (cells self))"
  by (simp_all add: create_cell_def Let_def split_def)

lemma create_cell_cells:
  "map cell_x (cells (fst (create_cell xP yP i self h))) = map cell_x (cells self) @ [Some (xP ! i)]"
  "map cell_y (cells (fst (create_cell xP yP i self h))) = map cell_y (cells self) @ [Some (yP ! i)]"
  "map synlist (cells (fst (create_cell xP yP i self h))) =
     map synlist (cells self) @ [[\<lparr>syn_seg = (Suc (next_id h), 0.5), syn_tau = 2, syn_e = 0\<rparr>]]"
  "map (\<lambda>c. sec_id (soma c)) (cells (fst (create_cell xP yP i self h))) =
     map (\<lambda>c. sec_id (soma c)) (cells self) @ [next_id h]"
  "map (\<lambda>c. attrs (dend c) ''e_pas'') (cells (fst (create_cell xP yP i self h))) =
     map (\<lambda>c. attrs (dend c) ''e_pas'') (cells self) @ [Some (- 65)]"
  by (simp_all add: create_cell_def Let_def split_def set_recording_cell create_synapse_def
      set_position_def ExpSyn_def HHCell_init_rest HHCell_init_soma HHCell_init_dend)


lemma loop_pop:
  "spkt (fst (create_cells_loop xP yP is self h)) = spkt self \<and>
   spkid (fst (create_cells_loop xP yP is self h)) = spkid self \<and>
   length (cells (fst (create_cells_loop xP yP is self h))) = length (cells self) + length is"
  by (induction "is" arbitrary: self h) (simp_all add: split_def Let_def create_cell_pop)

lemma loop_cells:
  "map cell_x (cells (fst (create_cells_loop xP yP is self h))) =
     map cell_x (cells self) @ map (\<lambda>i. Some (xP ! i)) is \<and>
   map cell_y (cells (fst (create_cells_loop xP yP is self h))) =
     map cell_y (cells self) @ map (\<lambda>i. Some (yP ! i)) is \<and>
   map (\<lambda>c. map syn_e (synlist c)) (cells (fst (create_cells_loop xP yP is self h))) =
     map (\<lambda>c. map syn_e (synlist c)) (cells self) @ map (\<lambda>i. [0]) is \<and>
   map (\<lambda>c. attrs (dend c) ''e_pas'') (cells (fst (create_cells_loop xP yP is self h))) =
     map (\<lambda>c. attrs (dend c) ''e_pas'') (cells self) @ map (\<lambda>i. Some (- 65)) is"
proof (induction "is" arbitrary: self h)
  case Nil
  show ?case by simp
next
  case (Cons i "is")
  have syn: "map (\<lambda>c. map syn_e (synlist c)) (cells (fst (create_cell xP yP i self h))) =
     map (\<lambda>c. map syn_e (synlist c)) (cells self) @ [[0]]"
    using arg_cong [OF create_cell_cells(3) [of xP yP i self h], of "map (map syn_e)"]
    by (simp add: comp_def)
  show ?case
    by (simp add: split_def Let_def Cons.IH create_cell_cells syn)
qed



lemma create_cell_new:
  "\<exists>c. cells (fst (create_cell xP yP i self h)) = cells self @ [c] \<and>
       synlist c = [\<lparr>syn_seg = (sec_id (dend c), 0.5), syn_tau = 2, syn_e = 0\<rparr>]"
  by (simp add: create_cell_def Let_def split_def set_recording_cell create_synapse_def
      set_position_def ExpSyn_def HHCell_init_rest)

lemma loop_synapses:
  "(\<forall>c\<in>set (cells self). synlist c = [\<lparr>syn_seg = (sec_id (dend c), 0.5), syn_tau = 2, syn_e = 0\<rparr>]) \<Longrightarrow>
   (\<forall>c\<in>set (cells (fst (create_cells_loop xP yP is self h))).
      synlist c = [\<lparr>syn_seg = (sec_id (dend c), 0.5), syn_tau = 2, syn_e = 0\<rparr>])"
proof (induction "is" arbitrary: self h)
  case Nil
  then show ?case by simp
next
  case (Cons i "is")
  obtain c where c: "cells (fst (create_cell xP yP i self h)) = cells self @ [c]"
      "synlist c = [\<lparr>syn_seg = (sec_id (dend c), 0.5), syn_tau = 2, syn_e = 0\<rparr>]"
    using create_cell_new by blast
  have "\<forall>c\<in>set (cells (fst (create_cell xP yP i self h))).
          synlist c = [\<lparr>syn_seg = (sec_id (dend c), 0.5), syn_tau = 2, syn_e = 0\<rparr>]"
    using Cons.prems c by auto
  from Cons.IH [OF this] show ?case
    by (simp add: split_def Let_def)
qed


lemma Pop_init_eq:
  assumes "py_getitem xr 0 = Inr xlo" "py_getitem xr 1 = Inr xhi"
    "py_getitem yr 0 = Inr ylo" "py_getitem yr 1 = Inr yhi"
  shows "Pop_init mt n xr yr h rng =
     Inr (fst (create_cells_loop
                 (map (\<lambda>k. 100 * xlo + (100 * xhi - 100 * xlo) * mt (rng_seed rng) (rng_pos rng + k)) [0..<n])
                 (map (\<lambda>k. 100 * ylo + (100 * yhi - 100 * ylo) * mt (rng_seed rng) (rng_pos rng + n + k)) [0..<n])
                 [0..<n] \<lparr>spkt = next_id h, spkid = Suc (next_id h), cells = []\<rparr> (snd (Vector (snd (Vector h))))),
          snd (create_cells_loop
                 (map (\<lambda>k. 100 * xlo + (100 * xhi - 100 * xlo) * mt (rng_seed rng) (rng_pos rng + k)) [0..<n])
                 (map (\<lambda>k. 100 * ylo + (100 * yhi - 100 * ylo) * mt (rng_seed rng) (rng_pos rng + n + k)) [0..<n])
                 [0..<n] \<lparr>spkt = next_id h, spkid = Suc (next_id h), cells = []\<rparr> (snd (Vector (snd (Vector h))))),
          rng\<lparr>rng_pos := rng_pos rng + n + n\<rparr>)"
  using assms
  by (simp add: Pop_init_def create_cells_def Let_def split_def Pop_size_def
      np_random_uniform_def Vector_def)

lemma Pop_init_getitems:
  assumes "Pop_init mt n xr yr h rng = Inr r"
  shows "\<exists>xlo xhi ylo yhi. py_getitem xr 0 = Inr xlo \<and> py_getitem xr 1 = Inr xhi \<and>
           py_getitem yr 0 = Inr ylo \<and> py_getitem yr 1 = Inr yhi"
  using assms
  by (auto simp: Pop_init_def create_cells_def Let_def split_def split: sum.splits)

lemma Pop_init_Inr:
  assumes "Pop_init mt n xr yr h rng = Inr (p, h', rng')"
  shows "\<exists>xlo xhi ylo yhi self0 h0.
           py_getitem xr 0 = Inr xlo \<and> py_getitem xr 1 = Inr xhi \<and>
           py_getitem yr 0 = Inr ylo \<and> py_getitem yr 1 = Inr yhi \<and>
           cells self0 = [] \<and> spkt self0 = next_id h \<and> spkid self0 = Suc (next_id h) \<and>
           next_id h0 = next_id h + 2 \<and> spike_records h0 = spike_records h \<and>
           p = fst (create_cells_loop
                 (map (\<lambda>k. 100 * xlo + (100 * xhi - 100 * xlo) * mt (rng_seed rng) (rng_pos rng + k)) [0..<n])
                 (map (\<lambda>k. 100 * ylo + (100 * yhi - 100 * ylo) * mt (rng_seed rng) (rng_pos rng + n + k)) [0..<n])
                 [0..<n] self0 h0) \<and>
           h' = snd (create_cells_loop
                 (map (\<lambda>k. 100 * xlo + (100 * xhi - 100 * xlo) * mt (rng_seed rng) (rng_pos rng + k)) [0..<n])
                 (map (\<lambda>k. 100 * ylo + (100 * yhi - 100 * ylo) * mt (rng_seed rng) (rng_pos rng + n + k)) [0..<n])
                 [0..<n] self0 h0) \<and>
           rng' = rng\<lparr>rng_pos := rng_pos rng + n + n\<rparr>"
proof -
  from Pop_init_getitems [OF assms] obtain xlo xhi ylo yhi where
    g: "py_getitem xr 0 = Inr xlo" "py_getitem xr 1 = Inr xhi"
       "py_getitem yr 0 = Inr ylo" "py_getitem yr 1 = Inr yhi"
    by blast
  from assms Pop_init_eq [OF g, of mt n h rng] have
    eqs: "p = fst (create_cells_loop
                 (map (\<lambda>k. 100 * xlo + (100 * xhi - 100 * xlo) * mt (rng_seed rng) (rng_pos rng + k)) [0..<n])
                 (map (\<lambda>k. 100 * ylo + (100 * yhi - 100 * ylo) * mt (rng_seed rng) (rng_pos rng + n + k)) [0..<n])
                 [0..<n] \<lparr>spkt = next_id h, spkid = Suc (next_id h), cells = []\<rparr> (snd (Vector (snd (Vector h)))))"
         "h' = snd (create_cells_loop
                 (map (\<lambda>k. 100 * xlo + (100 * xhi - 100 * xlo) * mt (rng_seed rng) (rng_pos rng + k)) [0..<n])
                 (map (\<lambda>k. 100 * ylo + (100 * yhi - 100 * ylo) * mt (rng_seed rng) (rng_pos rng + n + k)) [0..<n])
                 [0..<n] \<lparr>spkt = next_id h, spkid = Suc (next_id h), cells = []\<rparr> (snd (Vector (snd (Vector h)))))"
         "rng' = rng\<lparr>rng_pos := rng_pos rng + n + n\<rparr>"
    by simp_all
  show ?thesis
    apply (rule exI [where x = xlo], rule exI [where x = xhi])
    apply (rule exI [where x = ylo], rule exI [where x = yhi])
    apply (rule exI [where x = "\<lparr>spkt = next_id h, spkid = Suc (next_id h), cells = []\<rparr>"])
    apply (rule exI [where x = "(snd (Vector (snd (Vector h))))"])
    using g eqs by (simp add: Vector_def)
qed

lemma Pop_init_pair:
  "\<exists>self0 h0.
     cells self0 = [] \<and> spkt self0 = next_id h \<and> spkid self0 = Suc (next_id h) \<and>
     next_id h0 = next_id h + 2 \<and> spike_records h0 = spike_records h \<and>
     Pop_init mt n [xlo, xhi] [ylo, yhi] h rng =
     Inr (fst (create_cells_loop
                 (map (\<lambda>k. 100 * xlo + (100 * xhi - 100 * xlo) * mt (rng_seed rng) (rng_pos rng + k)) [0..<n])
                 (map (\<lambda>k. 100 * ylo + (100 * yhi - 100 * ylo) * mt (rng_seed rng) (rng_pos rng + n + k)) [0..<n])
                 [0..<n] self0 h0),
          snd (create_cells_loop
                 (map (\<lambda>k. 100 * xlo + (100 * xhi - 100 * xlo) * mt (rng_seed rng) (rng_pos rng + k)) [0..<n])
                 (map (\<lambda>k. 100 * ylo + (100 * yhi - 100 * ylo) * mt (rng_seed rng) (rng_pos rng + n + k)) [0..<n])
                 [0..<n] self0 h0),
          rng\<lparr>rng_pos := rng_pos rng + n + n\<rparr>)"
proof -
  have g: "py_getitem [xlo, xhi] 0 = Inr xlo" "py_getitem [xlo, xhi] 1 = Inr xhi"
       "py_getitem [ylo, yhi] 0 = Inr ylo" "py_getitem [ylo, yhi] 1 = Inr yhi"
    by (simp_all add: py_getitem_def)
  show ?thesis
    apply (rule exI [where x = "\<lparr>spkt = next_id h, spkid = Suc (next_id h), cells = []\<rparr>"])
    apply (rule exI [where x = "(snd (Vector (snd (Vector h))))"])
    using Pop_init_eq [OF g, of mt n h rng] by (simp add: Vector_def)
qed

lemma map_nth_upt: "map (\<lambda>i. g (map f [0..<n] ! i)) [0..<n] = map (\<lambda>i. g (f i)) [0..<n]"
  by (rule map_cong) simp_all


lemma demo_mt_unit: "\<forall>s k. 0 \<le> demo_mt s k \<and> demo_mt s k < 1"
  by (simp add: demo_mt_def)

lemma Inr_projr: "r = Inr v \<Longrightarrow> r = Inr (projr r)"
  by (cases r) auto

lemma demo_pop_ok: "demo_pop = Inr (projr demo_pop)"
proof -
  from Pop_init_pair [of hoc_init demo_mt 1 "0.0" "1.0" "0.2" 1
      "np_random_seed 111 \<lparr>rng_seed = 0, rng_pos = 0\<rparr>"]
  obtain v where "Pop_init demo_mt 1 [0.0, 1.0] [0.2, 1] hoc_init
      (np_random_seed 111 \<lparr>rng_seed = 0, rng_pos = 0\<rparr>) = Inr v"
    by blast
  then have "demo_pop = Inr v" by (simp only: demo_pop_def)
  then show ?thesis by (rule Inr_projr)
qed

lemma demo_pop_Inr:
  "Pop_init demo_mt 1 [0.0, 1.0] [0.2, 1] hoc_init
      (np_random_seed 111 \<lparr>rng_seed = 0, rng_pos = 0\<rparr>) = Inr (projr demo_pop)"
  by (rule trans [OF demo_pop_def [symmetric] demo_pop_ok])

subsection \<open>The synapse of a population's cells\<close>

text \<open>
  Claim C7, as amended. For every population, each member cell is created with exactly one
  synapse, at position 0.5 of the cell's dendrite, with decay constant 2 and reversal
  potential 0: the defaults of \<^verbatim>\<open>create_synapse\<close>.
\<close>

theorem pop_synapse_defaults:
  assumes "Pop_init mt n xr yr h rng = Inr res"
  shows "\<forall>c\<in>set (cells (fst res)).
           synlist c = [\<lparr>syn_seg = (sec_id (dend c), 0.5), syn_tau = 2, syn_e = 0\<rparr>]"
proof -
  obtain p h' rng' where res: "res = (p, h', rng')" by (cases res) auto
  from Pop_init_Inr [OF assms [unfolded res]] obtain xP yP self0 h0 where
    e: "cells self0 = []" and p: "p = fst (create_cells_loop xP yP [0..<n] self0 h0)"
    by blast
  from e have "\<forall>c\<in>set (cells self0).
      synlist c = [\<lparr>syn_seg = (sec_id (dend c), 0.5), syn_tau = 2, syn_e = 0\<rparr>]" by simp
  from loop_synapses [OF this] show ?thesis by (simp add: res p)
qed

lemma demo_pop_cells: "length (cells (fst (projr demo_pop))) = 1"
proof -
  obtain p h' rng' where res: "projr demo_pop = (p, h', rng')" by (cases "projr demo_pop") auto
  from demo_pop_Inr have "Pop_init demo_mt 1 [0.0, 1.0] [0.2, 1] hoc_init
      (np_random_seed 111 \<lparr>rng_seed = 0, rng_pos = 0\<rparr>) = Inr (p, h', rng')"
    by (simp only: res)
  from Pop_init_Inr [OF this] obtain xP yP self0 h0 where
    e: "cells self0 = []" and p: "p = fst (create_cells_loop xP yP [0..<1] self0 h0)"
    by blast
  show ?thesis using loop_pop [of xP yP "[0..<1]" self0 h0] by (simp add: res p e)
qed

theorem pop_synapse_defaults_witness:
  "demo_pop = Inr (projr demo_pop) \<and>
   hd (cells (fst (projr demo_pop))) \<in> set (cells (fst (projr demo_pop))) \<and>
   map syn_e (synlist (hd (cells (fst (projr demo_pop))))) = [0]"
proof -
  have ne: "cells (fst (projr demo_pop)) \<noteq> []" using demo_pop_cells by auto
  then have mem: "hd (cells (fst (projr demo_pop))) \<in> set (cells (fst (projr demo_pop)))" by simp
  from pop_synapse_defaults [OF demo_pop_Inr] mem
  have "synlist (hd (cells (fst (projr demo_pop)))) =
     [\<lparr>syn_seg = (sec_id (dend (hd (cells (fst (projr demo_pop))))), 0.5), syn_tau = 2, syn_e = 0\<rparr>]"
    by blast
  with demo_pop_ok mem show ?thesis by simp
qed

text \<open>
  Claim C7, as stated, says that the reversal potential of that synapse is the passive
  reversal value of the dendrite. In a population of one cell the synapse has reversal
  potential 0, the dendrite has \<^verbatim>\<open>e_pas = -65\<close>, and the two differ.
\<close>

theorem pop_synapse_reversal_counterexample:
  "demo_pop = Inr (projr demo_pop) \<and>
   length (cells (fst (projr demo_pop))) = 1 \<and>
   map syn_e (synlist (hd (cells (fst (projr demo_pop))))) = [0] \<and>
   attrs (dend (hd (cells (fst (projr demo_pop))))) ''e_pas'' = Some (- 65) \<and>
   (0 :: real) \<noteq> - 65"
proof -
  obtain p h' rng' where res: "projr demo_pop = (p, h', rng')" by (cases "projr demo_pop") auto
  from demo_pop_Inr have "Pop_init demo_mt 1 [0.0, 1.0] [0.2, 1] hoc_init
      (np_random_seed 111 \<lparr>rng_seed = 0, rng_pos = 0\<rparr>) = Inr (p, h', rng')"
    by (simp only: res)
  from Pop_init_Inr [OF this] obtain xP yP self0 h0 where
    e: "cells self0 = []" and p: "p = fst (create_cells_loop xP yP [0..<1] self0 h0)"
    by blast
  have len: "length (cells p) = 1"
    using loop_pop [of xP yP "[0..<1]" self0 h0] by (simp add: p e)
  then obtain c where c: "cells p = [c]" by (cases "cells p") auto
  note lc = loop_cells [of xP yP "[0..<1]" self0 h0, folded p]
  from lc have "map syn_e (synlist c) = [0]" "attrs (dend c) ''e_pas'' = Some (- 65)"
    by (simp_all add: e c)
  with demo_pop_ok len show ?thesis by (simp add: res c)
qed

subsection \<open>Positions of a population of 100 cells\<close>

lemma unit_scale:
  fixes u lo hi :: real
  assumes "0 \<le> u" "u < 1" "lo \<le> hi"
  shows "lo \<le> lo + (hi - lo) * u \<and> lo + (hi - lo) * u \<le> hi"
proof -
  from assms have a: "0 \<le> (hi - lo) * u" by simp
  from assms have "(hi - lo) * u \<le> (hi - lo) * 1"
    by (intro mult_left_mono) simp_all
  with a show ?thesis by simp
qed

lemma Pop_100_positions:
  assumes gen: "\<forall>s k. 0 \<le> mt s k \<and> mt s k < 1"
  shows "\<exists>p h' rng'. Pop_init mt 100 [0.0, 1.0] [0.2, 1] h rng = Inr (p, h', rng') \<and>
      length (cells p) = 100 \<and>
      map cell_x (cells p) = map (\<lambda>k. Some (100 * mt (rng_seed rng) (rng_pos rng + k))) [0..<100] \<and>
      map cell_y (cells p) = map (\<lambda>k. Some (20 + 80 * mt (rng_seed rng) (rng_pos rng + 100 + k))) [0..<100] \<and>
      (\<forall>c\<in>set (cells p). \<exists>x y. cell_x c = Some x \<and> cell_y c = Some y \<and>
          0 \<le> x \<and> x \<le> 100 \<and> 20 \<le> y \<and> y \<le> 100) \<and>
      rng' = rng\<lparr>rng_pos := rng_pos rng + 200\<rparr>"
proof -
  let ?xP = "map (\<lambda>k. 100 * 0.0 + (100 * 1.0 - 100 * 0.0) * mt (rng_seed rng) (rng_pos rng + k)) [0..<100]"
  let ?yP = "map (\<lambda>k. 100 * 0.2 + (100 * 1 - 100 * 0.2) * mt (rng_seed rng) (rng_pos rng + 100 + k)) [0..<100]"
  from Pop_init_pair [of h mt 100 "0.0" "1.0" "0.2" 1 rng] obtain self0 h0 where
    e: "cells self0 = []" and n0: "next_id h0 = next_id h + 2"
    and sr0: "spike_records h0 = spike_records h"
    and eq: "Pop_init mt 100 [0.0, 1.0] [0.2, 1] h rng =
      Inr (fst (create_cells_loop ?xP ?yP [0..<100] self0 h0),
           snd (create_cells_loop ?xP ?yP [0..<100] self0 h0),
           rng\<lparr>rng_pos := rng_pos rng + 100 + 100\<rparr>)"
    by blast
  define p where "p = fst (create_cells_loop ?xP ?yP [0..<100] self0 h0)"
  define h' where "h' = snd (create_cells_loop ?xP ?yP [0..<100] self0 h0)"
  note lc = loop_cells [of ?xP ?yP "[0..<100]" self0 h0, folded p_def]
  note lp = loop_pop [of ?xP ?yP "[0..<100]" self0 h0, folded p_def]
  have len: "length (cells p) = 100" using lp e by simp
  have xs: "map cell_x (cells p) = map (\<lambda>k. Some (100 * mt (rng_seed rng) (rng_pos rng + k))) [0..<100]"
    using lc e by (simp add: map_nth_upt del: upt_Suc)
  have ys: "map cell_y (cells p) = map (\<lambda>k. Some (20 + 80 * mt (rng_seed rng) (rng_pos rng + 100 + k))) [0..<100]"
    using lc e by (simp add: map_nth_upt del: upt_Suc)
  have bounds: "\<forall>c\<in>set (cells p). \<exists>x y. cell_x c = Some x \<and> cell_y c = Some y \<and>
          0 \<le> x \<and> x \<le> 100 \<and> 20 \<le> y \<and> y \<le> 100"
  proof
    fix c assume "c \<in> set (cells p)"
    then obtain k where k: "k < 100" "c = cells p ! k"
      using len by (metis in_set_conv_nth)
    from k len have "cell_x c = map cell_x (cells p) ! k" "cell_y c = map cell_y (cells p) ! k"
      by simp_all
    with k have cx: "cell_x c = Some (100 * mt (rng_seed rng) (rng_pos rng + k))"
      and cy: "cell_y c = Some (20 + 80 * mt (rng_seed rng) (rng_pos rng + 100 + k))"
      by (simp_all add: xs ys del: upt_Suc)
    from gen have u1: "0 \<le> mt (rng_seed rng) (rng_pos rng + k)" "mt (rng_seed rng) (rng_pos rng + k) < 1"
      and u2: "0 \<le> mt (rng_seed rng) (rng_pos rng + 100 + k)" "mt (rng_seed rng) (rng_pos rng + 100 + k) < 1"
      by simp_all
    from unit_scale [OF u1, of 0 100] unit_scale [OF u2, of 20 100] cx cy
    show "\<exists>x y. cell_x c = Some x \<and> cell_y c = Some y \<and> 0 \<le> x \<and> x \<le> 100 \<and> 20 \<le> y \<and> y \<le> 100"
      by simp
  qed
  from eq len xs ys bounds show ?thesis
    unfolding p_def h'_def by simp
qed


lemma tutorial_4b_popExc:
  assumes gen: "\<forall>s k. 0 \<le> mt s k \<and> mt s k < 1"
  shows "\<exists>popExc popInh h' rng'. tutorial_4b_pops mt rng0 = Inr (popExc, popInh, h', rng') \<and>
      length (cells popExc) = 100 \<and>
      map cell_x (cells popExc) = map (\<lambda>k. Some (100 * mt 111 k)) [0..<100] \<and>
      map cell_y (cells popExc) = map (\<lambda>k. Some (20 + 80 * mt 111 (100 + k))) [0..<100] \<and>
      (\<forall>c\<in>set (cells popExc). \<exists>x y. cell_x c = Some x \<and> cell_y c = Some y \<and>
          0 \<le> x \<and> x \<le> 100 \<and> 20 \<le> y \<and> y \<le> 100)"
proof -
  let ?rng = "np_random_seed 111 rng0"
  from Pop_100_positions [OF gen, of hoc_init ?rng] obtain p h1 rng1 where
    exc: "Pop_init mt 100 [0.0, 1.0] [0.2, 1] hoc_init ?rng = Inr (p, h1, rng1)"
    and len: "length (cells p) = 100"
    and xs: "map cell_x (cells p) = map (\<lambda>k. Some (100 * mt (rng_seed ?rng) (rng_pos ?rng + k))) [0..<100]"
    and ys: "map cell_y (cells p) = map (\<lambda>k. Some (20 + 80 * mt (rng_seed ?rng) (rng_pos ?rng + 100 + k))) [0..<100]"
    and bounds: "\<forall>c\<in>set (cells p). \<exists>x y. cell_x c = Some x \<and> cell_y c = Some y \<and>
          0 \<le> x \<and> x \<le> 100 \<and> 20 \<le> y \<and> y \<le> 100"
    by blast
  from Pop_init_pair [of h1 mt 40 "0.0" "1.0" 0 "0.33" rng1] obtain q h2 rng2 where
    inh: "Pop_init mt 40 [0.0, 1.0] [0, 0.33] h1 rng1 = Inr (q, h2, rng2)"
    by blast
  have run: "tutorial_4b_pops mt rng0 = Inr (p, q, h2, rng2)"
    unfolding tutorial_4b_pops_def Let_def exc by (simp only: sum.case prod.case inh)
  have xs': "map cell_x (cells p) = map (\<lambda>k. Some (100 * mt 111 k)) [0..<100]"
    using xs by (simp add: np_random_seed_def del: upt_Suc)
  have ys': "map cell_y (cells p) = map (\<lambda>k. Some (20 + 80 * mt 111 (100 + k))) [0..<100]"
    using ys by (simp add: np_random_seed_def del: upt_Suc)
  from run len xs' ys' bounds show ?thesis by blast
qed

text \<open>
  Claim C2. Let the generator return numbers in \<open>[0, 1)\<close>. A population made with
  \<^verbatim>\<open>numCells=100\<close>, the default \<^verbatim>\<open>xNormRange\<close> and \<^verbatim>\<open>yNormRange=[0.2, 1]\<close> has exactly
  100 cells, every cell has \<open>x\<close> in \<open>[0, 100]\<close> and \<open>y\<close> in \<open>[20, 100]\<close>, and the
  coordinates are \<open>100 * u\<close> and \<open>20 + 80 * u\<close> for the next 200 numbers \<open>u\<close> of the
  generator. In the script the generator has just been seeded with 111 when \<^verbatim>\<open>popExc\<close> is
  made, so its coordinates are those of the first 200 numbers of that stream, whatever
  the state of the generator was when the program started: two runs give the same
  coordinates.
\<close>


theorem population_positions:
  assumes gen: "\<forall>s k. 0 \<le> mt s k \<and> mt s k < 1"
  shows "(\<exists>p h' rng'. Pop_init mt 100 [0.0, 1.0] [0.2, 1] h rng = Inr (p, h', rng') \<and>
      length (cells p) = 100 \<and>
      (\<forall>c\<in>set (cells p). \<exists>x y. cell_x c = Some x \<and> cell_y c = Some y \<and>
          0 \<le> x \<and> x \<le> 100 \<and> 20 \<le> y \<and> y \<le> 100) \<and>
      map cell_x (cells p) = map (\<lambda>k. Some (100 * mt (rng_seed rng) (rng_pos rng + k))) [0..<100] \<and>
      map cell_y (cells p) = map (\<lambda>k. Some (20 + 80 * mt (rng_seed rng) (rng_pos rng + 100 + k))) [0..<100]) \<and>
    (\<exists>popExc popInh h' rng'. tutorial_4b_pops mt rng0 = Inr (popExc, popInh, h', rng') \<and>
      length (cells popExc) = 100 \<and>
      (\<forall>c\<in>set (cells popExc). \<exists>x y. cell_x c = Some x \<and> cell_y c = Some y \<and>
          0 \<le> x \<and> x \<le> 100 \<and> 20 \<le> y \<and> y \<le> 100) \<and>
      map cell_x (cells popExc) = map (\<lambda>k. Some (100 * mt 111 k)) [0..<100] \<and>
      map cell_y (cells popExc) = map (\<lambda>k. Some (20 + 80 * mt 111 (100 + k))) [0..<100]) \<and>
    map cell_x (cells (fst (projr (tutorial_4b_pops mt rng0)))) =
      map cell_x (cells (fst (projr (tutorial_4b_pops mt rng1)))) \<and>
    map cell_y (cells (fst (projr (tutorial_4b_pops mt rng0)))) =
      map cell_y (cells (fst (projr (tutorial_4b_pops mt rng1))))"
proof (intro conjI)
  from Pop_100_positions [OF gen, of h rng]
  show "\<exists>p h' rng'. Pop_init mt 100 [0.0, 1.0] [0.2, 1] h rng = Inr (p, h', rng') \<and>
      length (cells p) = 100 \<and>
      (\<forall>c\<in>set (cells p). \<exists>x y. cell_x c = Some x \<and> cell_y c = Some y \<and>
          0 \<le> x \<and> x \<le> 100 \<and> 20 \<le> y \<and> y \<le> 100) \<and>
      map cell_x (cells p) = map (\<lambda>k. Some (100 * mt (rng_seed rng) (rng_pos rng + k))) [0..<100] \<and>
      map cell_y (cells p) = map (\<lambda>k. Some (20 + 80 * mt (rng_seed rng) (rng_pos rng + 100 + k))) [0..<100]"
    by blast
next
  from tutorial_4b_popExc [OF gen, of rng0]
  show "\<exists>popExc popInh h' rng'. tutorial_4b_pops mt rng0 = Inr (popExc, popInh, h', rng') \<and>
      length (cells popExc) = 100 \<and>
      (\<forall>c\<in>set (cells popExc). \<exists>x y. cell_x c = Some x \<and> cell_y c = Some y \<and>
          0 \<le> x \<and> x \<le> 100 \<and> 20 \<le> y \<and> y \<le> 100) \<and>
      map cell_x (cells popExc) = map (\<lambda>k. Some (100 * mt 111 k)) [0..<100] \<and>
      map cell_y (cells popExc) = map (\<lambda>k. Some (20 + 80 * mt 111 (100 + k))) [0..<100]"
    by blast
next
  from tutorial_4b_popExc [OF gen, of rng0] obtain p0 where
    a: "fst (projr (tutorial_4b_pops mt rng0)) = p0"
       "map cell_x (cells p0) = map (\<lambda>k. Some (100 * mt 111 k)) [0..<100]"
       "map cell_y (cells p0) = map (\<lambda>k. Some (20 + 80 * mt 111 (100 + k))) [0..<100]"
    by force
  from tutorial_4b_popExc [OF gen, of rng1] obtain p1 where
    b: "fst (projr (tutorial_4b_pops mt rng1)) = p1"
       "map cell_x (cells p1) = map (\<lambda>k. Some (100 * mt 111 k)) [0..<100]"
       "map cell_y (cells p1) = map (\<lambda>k. Some (20 + 80 * mt 111 (100 + k))) [0..<100]"
    by force
  show "map cell_x (cells (fst (projr (tutorial_4b_pops mt rng0)))) =
      map cell_x (cells (fst (projr (tutorial_4b_pops mt rng1))))"
    by (simp only: a b)
  show "map cell_y (cells (fst (projr (tutorial_4b_pops mt rng0)))) =
      map cell_y (cells (fst (projr (tutorial_4b_pops mt rng1))))"
    by (simp only: a b)
qed

theorem population_positions_witness:
  "(\<forall>s k. 0 \<le> demo_mt s k \<and> demo_mt s k < 1) \<and>
   (\<exists>popExc popInh h' rng'.
      tutorial_4b_pops demo_mt \<lparr>rng_seed = 0, rng_pos = 0\<rparr> = Inr (popExc, popInh, h', rng') \<and>
      length (cells popExc) = 100 \<and>
      map cell_y (cells popExc) = map (\<lambda>k. Some 60) [0..<100])"
proof -
  from population_positions [OF demo_mt_unit, of hoc_init "\<lparr>rng_seed = 0, rng_pos = 0\<rparr>"
      "\<lparr>rng_seed = 0, rng_pos = 0\<rparr>" "\<lparr>rng_seed = 0, rng_pos = 0\<rparr>"]
  have "\<exists>popExc popInh h' rng'.
      tutorial_4b_pops demo_mt \<lparr>rng_seed = 0, rng_pos = 0\<rparr> = Inr (popExc, popInh, h', rng') \<and>
      length (cells popExc) = 100 \<and>
      map cell_y (cells popExc) = map (\<lambda>k. Some (20 + 80 * demo_mt 111 (100 + k))) [0..<100]"
    by blast
  then show ?thesis using demo_mt_unit by (simp add: demo_mt_def del: upt_Suc)
qed

subsection \<open>Spike ids\<close>




















subsection \<open>Plotting the voltage\<close>

lemma on_gcf_snoc:
  "on_gcf f (p\<lparr>figures := fs @ [g]\<rparr>) = p\<lparr>figures := fs @ [f g]\<rparr>"
  by (simp add: on_gcf_def)

lemmas plt_defs = plt_plot_def plt_legend_def plt_xlabel_def plt_ylabel_def plt_ylim_def
  plt_title_def plt_show_def plt_figure_def new_figure_def

lemma plot_voltage_ok:
  assumes "t_vec c = Some tv" "soma_v_vec c = Some sv" "dend_v_vec c = Some dv"
  shows "plot_voltage c title ylim sh h p =
    Inr (length (figures p),
         p\<lparr>figures := figures p @
             [\<lparr>fig_size = (8, 4),
               fig_lines = [\<lparr>ln_x = vec_data h tv, ln_y = vec_data h sv, ln_color = ''black'',
                              ln_label = ''soma(0.5)''\<rparr>,
                            \<lparr>ln_x = vec_data h tv, ln_y = vec_data h dv, ln_color = ''red'',
                              ln_label = ''dend(0.5)''\<rparr>],
               fig_scatters = [], fig_legend = True, fig_xlabel = ''time (ms)'',
               fig_ylabel = ''mV'', fig_xlim = None, fig_ylim = ylim, fig_title = title\<rparr>],
           shown := (if sh then Suc (shown p) else shown p)\<rparr>)"
  using assms
  by (cases ylim) (simp_all add: plot_voltage_def plt_defs on_gcf_snoc Let_def)

lemma plot_voltage_fails:
  assumes "t_vec c = None \<or> soma_v_vec c = None \<or> dend_v_vec c = None"
  shows "plot_voltage c title ylim sh h p = Inl AttributeError"
  using assms
  by (auto simp: plot_voltage_def plt_figure_def Let_def split: option.splits)

text \<open>
  Claim C9, as amended. For every cell that has its three recording vectors, as every
  cell has after \<^verbatim>\<open>set_recording\<close>, \<^verbatim>\<open>plot_voltage(title, ylim, show)\<close> returns the handle
  of the figure it opens; for a cell that lacks one of them it fails with an
  \<open>AttributeError\<close>. A call that returns leaves the cell and the engine state, with the
  vectors, as they were.
\<close>

theorem plot_voltage_frame:
  "(t_vec c \<noteq> None \<and> soma_v_vec c \<noteq> None \<and> dend_v_vec c \<noteq> None \<longrightarrow>
      (\<exists>p'. plot_voltage c title ylim sh h p = Inr (length (figures p), p') \<and>
            length (figures p') = Suc (length (figures p)) \<and>
            cell_step (Plot_voltage title ylim sh) (c, h, p) = Inr (c, h, p'))) \<and>
   (\<exists>p'. plot_voltage (fst (set_recording c h0)) title ylim sh h p = Inr (length (figures p), p')) \<and>
   (cell_step (Plot_voltage title ylim sh) (c, h, p) = Inr (c', h', p') \<longrightarrow> c' = c \<and> h' = h) \<and>
   (t_vec c = None \<or> soma_v_vec c = None \<or> dend_v_vec c = None \<longrightarrow>
      plot_voltage c title ylim sh h p = Inl AttributeError \<and>
      cell_step (Plot_voltage title ylim sh) (c, h, p) = Inl AttributeError)"
proof (intro conjI impI)
  assume "t_vec c \<noteq> None \<and> soma_v_vec c \<noteq> None \<and> dend_v_vec c \<noteq> None"
  then obtain tv sv dv where v: "t_vec c = Some tv" "soma_v_vec c = Some sv" "dend_v_vec c = Some dv"
    by auto
  show "\<exists>p'. plot_voltage c title ylim sh h p = Inr (length (figures p), p') \<and>
            length (figures p') = Suc (length (figures p)) \<and>
            cell_step (Plot_voltage title ylim sh) (c, h, p) = Inr (c, h, p')"
    by (simp add: plot_voltage_ok [OF v])
next
  have v: "t_vec (fst (set_recording c h0)) = Some (Suc (Suc (next_id h0)))"
    "soma_v_vec (fst (set_recording c h0)) = Some (next_id h0)"
    "dend_v_vec (fst (set_recording c h0)) = Some (Suc (next_id h0))"
    by (simp_all add: set_recording_cell)
  show "\<exists>p'. plot_voltage (fst (set_recording c h0)) title ylim sh h p = Inr (length (figures p), p')"
    by (simp add: plot_voltage_ok [OF v])
next
  assume "cell_step (Plot_voltage title ylim sh) (c, h, p) = Inr (c', h', p')"
  then show "c' = c" "h' = h"
    by (auto split: sum.splits)
next
  assume a: "t_vec c = None \<or> soma_v_vec c = None \<or> dend_v_vec c = None"
  show "plot_voltage c title ylim sh h p = Inl AttributeError"
    by (rule plot_voltage_fails [OF a])
  then show "cell_step (Plot_voltage title ylim sh) (c, h, p) = Inl AttributeError"
    by simp
qed


theorem plot_voltage_frame_witness:
  "t_vec (fst (set_recording (fst (HHCell_init hoc_init)) (snd (HHCell_init hoc_init)))) \<noteq> None \<and>
   soma_v_vec (fst (set_recording (fst (HHCell_init hoc_init)) (snd (HHCell_init hoc_init)))) \<noteq> None \<and>
   dend_v_vec (fst (set_recording (fst (HHCell_init hoc_init)) (snd (HHCell_init hoc_init)))) \<noteq> None \<and>
   (\<exists>p'. plot_voltage (fst (set_recording (fst (HHCell_init hoc_init)) (snd (HHCell_init hoc_init))))
           ''Cell voltage'' None True
           (snd (set_recording (fst (HHCell_init hoc_init)) (snd (HHCell_init hoc_init)))) plt_init
         = Inr (0, p') \<and>
         cell_step (Plot_voltage ''Cell voltage'' None True)
           (fst (set_recording (fst (HHCell_init hoc_init)) (snd (HHCell_init hoc_init))),
            snd (set_recording (fst (HHCell_init hoc_init)) (snd (HHCell_init hoc_init))), plt_init)
         = Inr (fst (set_recording (fst (HHCell_init hoc_init)) (snd (HHCell_init hoc_init))),
                snd (set_recording (fst (HHCell_init hoc_init)) (snd (HHCell_init hoc_init))), p')) \<and>
   t_vec (fst (HHCell_init hoc_init)) = None \<and>
   cell_step (Plot_voltage ''Cell voltage'' None True)
     (fst (HHCell_init hoc_init), snd (HHCell_init hoc_init), plt_init) = Inl AttributeError"
proof -
  have v: "t_vec (fst (set_recording (fst (HHCell_init hoc_init)) (snd (HHCell_init hoc_init)))) \<noteq> None \<and>
   soma_v_vec (fst (set_recording (fst (HHCell_init hoc_init)) (snd (HHCell_init hoc_init)))) \<noteq> None \<and>
   dend_v_vec (fst (set_recording (fst (HHCell_init hoc_init)) (snd (HHCell_init hoc_init)))) \<noteq> None"
    by (simp add: set_recording_cell)
  have n: "t_vec (fst (HHCell_init hoc_init)) = None"
    by (simp add: HHCell_init_rest)
  have f0: "length (figures plt_init) = 0"
    by (simp add: plt_init_def)
  from plot_voltage_frame [of "fst (set_recording (fst (HHCell_init hoc_init)) (snd (HHCell_init hoc_init)))"
      "''Cell voltage''" None True
      "snd (set_recording (fst (HHCell_init hoc_init)) (snd (HHCell_init hoc_init)))" plt_init]
    plot_voltage_frame [of "fst (HHCell_init hoc_init)" "''Cell voltage''" None True
      "snd (HHCell_init hoc_init)" plt_init]
    v n f0
  show ?thesis by (simp only: simp_thms) blast
qed

text \<open>
  Claim C9, as stated, is about every cell. On a cell just constructed, on which
  \<^verbatim>\<open>set_recording\<close> has not run, \<^verbatim>\<open>plot_voltage\<close> returns no figure handle: reading
  \<^verbatim>\<open>self.t_vec\<close> fails.
\<close>


theorem plot_voltage_unrecorded_counterexample:
  "plot_voltage (fst (HHCell_init hoc_init)) ''Cell voltage'' None True
     (snd (HHCell_init hoc_init)) plt_init = Inl AttributeError"
  by (simp add: plot_voltage_def plt_figure_def HHCell_init_rest Let_def)

subsection \<open>The topology of a cell\<close>

lemmas method_defs = build_topology_def define_geometry_def define_biophysics_def
  add_current_stim_def create_synapse_def set_position_def set_recording_def Vector_def
  vec_record_def connect2pre_def connect_def setattr_def insert_mech_def

lemma cell_step_topology:
  assumes "cell_step a (c, h, p) = Inr (c', h', p')" "a \<noteq> Create_sections" "a \<noteq> Build_topology"
  shows "parentseg (dend c') = parentseg (dend c) \<and> connect_calls (dend c') = connect_calls (dend c) \<and>
         parentseg (soma c') = parentseg (soma c) \<and> connect_calls (soma c') = connect_calls (soma c) \<and>
         sec_id (soma c') = sec_id (soma c) \<and> sec_id (dend c') = sec_id (dend c)"
  using assms
  by (cases a) (auto simp: method_defs Let_def split_def split: sum.splits)

lemma cell_steps_topology:
  assumes "cell_steps ops (c, h, p) = Inr (c', h', p')" "Create_sections \<notin> set ops"
    "Build_topology \<notin> set ops"
  shows "parentseg (dend c') = parentseg (dend c) \<and> connect_calls (dend c') = connect_calls (dend c) \<and>
         parentseg (soma c') = parentseg (soma c) \<and> connect_calls (soma c') = connect_calls (soma c) \<and>
         sec_id (soma c') = sec_id (soma c) \<and> sec_id (dend c') = sec_id (dend c)"
  using assms
proof (induction ops arbitrary: c h p)
  case Nil
  then show ?case by simp
next
  case (Cons a ops)
  from Cons.prems(1) obtain c1 h1 p1 where
    s: "cell_step a (c, h, p) = Inr (c1, h1, p1)" and r: "cell_steps ops (c1, h1, p1) = Inr (c', h', p')"
    by (auto split: sum.splits)
  from Cons.prems have na: "a \<noteq> Create_sections" "a \<noteq> Build_topology"
    and nops: "Create_sections \<notin> set ops" "Build_topology \<notin> set ops" by auto
  from cell_step_topology [OF s na] Cons.IH [OF r nops] show ?case by simp
qed

text \<open>
  Claim C4, as amended. After \<^verbatim>\<open>HHCell()\<close> the end 0 of the dendrite is attached to
  position 1 of the cell's soma, by the one call of \<^verbatim>\<open>connect\<close> that the constructor
  makes. After any later sequence of method calls that succeeds and invokes neither
  \<^verbatim>\<open>create_sections\<close> nor \<^verbatim>\<open>build_topology\<close> again, the dendrite is still attached
  there, \<^verbatim>\<open>connect\<close> has still been called on it exactly once, and the soma has no parent.
  The source guards neither of the two methods.
\<close>

theorem topology_connected_once:
  "parentseg (dend (fst (HHCell_init h))) = Some ((sec_id (soma (fst (HHCell_init h))), 1), 0) \<and>
   connect_calls (dend (fst (HHCell_init h))) = 1 \<and>
   parentseg (soma (fst (HHCell_init h))) = None \<and>
   (cell_steps ops (fst (HHCell_init h), snd (HHCell_init h), p) = Inr (c', h', p') \<longrightarrow>
    Create_sections \<notin> set ops \<longrightarrow> Build_topology \<notin> set ops \<longrightarrow>
      parentseg (dend c') = Some ((sec_id (soma c'), 1), 0) \<and>
      connect_calls (dend c') = 1 \<and>
      parentseg (soma c') = None \<and> connect_calls (soma c') = 0)"
proof (intro conjI impI)
  assume run: "cell_steps ops (fst (HHCell_init h), snd (HHCell_init h), p) = Inr (c', h', p')"
    and no: "Create_sections \<notin> set ops" "Build_topology \<notin> set ops"
  note inv = cell_steps_topology [OF run no]
  from inv show "parentseg (dend c') = Some ((sec_id (soma c'), 1), 0)"
    by (simp add: HHCell_init_soma HHCell_init_dend)
  from inv show "connect_calls (dend c') = 1"
    by (simp add: HHCell_init_dend)
  from inv show "parentseg (soma c') = None"
    by (simp add: HHCell_init_soma)
  from inv show "connect_calls (soma c') = 0"
    by (simp add: HHCell_init_soma)
qed (simp_all add: HHCell_init_soma HHCell_init_dend)

theorem topology_connected_once_witness:
  "cell_steps [Set_recording, Add_current_stim 10, Create_synapse 0.5 2 0]
      (fst (HHCell_init hoc_init), snd (HHCell_init hoc_init), plt_init) =
     Inr (create_synapse (add_current_stim
            (fst (set_recording (fst (HHCell_init hoc_init)) (snd (HHCell_init hoc_init)))) 10) 0.5 2 0,
          snd (set_recording (fst (HHCell_init hoc_init)) (snd (HHCell_init hoc_init))), plt_init) \<and>
   Create_sections \<notin> set [Set_recording, Add_current_stim 10, Create_synapse 0.5 2 0] \<and>
   Build_topology \<notin> set [Set_recording, Add_current_stim 10, Create_synapse 0.5 2 0] \<and>
   parentseg (dend (create_synapse (add_current_stim
            (fst (set_recording (fst (HHCell_init hoc_init)) (snd (HHCell_init hoc_init)))) 10) 0.5 2 0)) =
     Some ((0, 1), 0) \<and>
   connect_calls (dend (create_synapse (add_current_stim
            (fst (set_recording (fst (HHCell_init hoc_init)) (snd (HHCell_init hoc_init)))) 10) 0.5 2 0)) = 1"
proof -
  have run: "cell_steps [Set_recording, Add_current_stim 10, Create_synapse 0.5 2 0]
      (fst (HHCell_init hoc_init), snd (HHCell_init hoc_init), plt_init) =
     Inr (create_synapse (add_current_stim
            (fst (set_recording (fst (HHCell_init hoc_init)) (snd (HHCell_init hoc_init)))) 10) 0.5 2 0,
          snd (set_recording (fst (HHCell_init hoc_init)) (snd (HHCell_init hoc_init))), plt_init)"
    by (simp add: split_def Let_def)
  have no: "Create_sections \<notin> set [Set_recording, Add_current_stim 10, Create_synapse 0.5 2 0]"
    "Build_topology \<notin> set [Set_recording, Add_current_stim 10, Create_synapse 0.5 2 0]"
    by simp_all
  have id0: "sec_id (soma (create_synapse (add_current_stim
            (fst (set_recording (fst (HHCell_init hoc_init)) (snd (HHCell_init hoc_init)))) 10) 0.5 2 0)) = 0"
    by (simp add: create_synapse_def add_current_stim_def set_recording_cell HHCell_init_soma
        hoc_init_def Let_def)
  from topology_connected_once [of hoc_init "[Set_recording, Add_current_stim 10, Create_synapse 0.5 2 0]"
      plt_init _ "snd (set_recording (fst (HHCell_init hoc_init)) (snd (HHCell_init hoc_init)))" plt_init]
    run no id0
  show ?thesis by simp
qed

text \<open>
  Claim C4, as stated, has the connection established exactly once over the cell's
  lifetime. On a constructed cell a call of \<^verbatim>\<open>build_topology\<close> succeeds and calls
  \<^verbatim>\<open>connect\<close> on the dendrite a second time, attaching it anew to the same place; and a
  call of \<^verbatim>\<open>create_sections\<close> succeeds and leaves the cell with a new dendrite that is
  attached to nothing.
\<close>

theorem topology_reestablished_counterexample:
  "cell_steps [Build_topology] (fst (HHCell_init hoc_init), snd (HHCell_init hoc_init), plt_init) =
     Inr (build_topology (fst (HHCell_init hoc_init)), snd (HHCell_init hoc_init), plt_init) \<and>
   connect_calls (dend (build_topology (fst (HHCell_init hoc_init)))) = 2 \<and>
   parentseg (dend (build_topology (fst (HHCell_init hoc_init)))) = Some ((0, 1), 0) \<and>
   cell_steps [Create_sections] (fst (HHCell_init hoc_init), snd (HHCell_init hoc_init), plt_init) =
     Inr (projr (cell_steps [Create_sections]
       (fst (HHCell_init hoc_init), snd (HHCell_init hoc_init), plt_init))) \<and>
   parentseg (dend (fst (projr (cell_steps [Create_sections]
       (fst (HHCell_init hoc_init), snd (HHCell_init hoc_init), plt_init))))) = None"
  by (simp add: build_topology_def connect_def HHCell_init_soma HHCell_init_dend hoc_init_def
      create_sections_def Section_def split_def Let_def)

subsection \<open>Positions stay as assigned\<close>

lemma py_getitem_Inr:
  assumes "py_getitem xs i = Inr v"
  shows "(if 0 \<le> i then nat i else nat (int (length xs) + i)) < length xs \<and>
         v = xs ! (if 0 \<le> i then nat i else nat (int (length xs) + i))"
  using assms by (auto simp: py_getitem_def split: if_splits)

lemma cell_step_position:
  assumes "cell_step a (c, h, p) = Inr (c', h', p')" "\<forall>x0 y0. a \<noteq> Set_position x0 y0"
  shows "cell_x c' = cell_x c \<and> cell_y c' = cell_y c"
  using assms
  by (cases a) (auto simp: method_defs create_sections_def Section_def Let_def split_def split: sum.splits)

lemma pop_step_position:
  assumes "pop_step a (pop, h, p) = Inr (pop', h', p')"
    and "\<forall>i x0 y0. a \<noteq> On_cell i (Set_position x0 y0)"
  shows "map cell_x (cells pop') = map cell_x (cells pop) \<and>
         map cell_y (cells pop') = map cell_y (cells pop)"
proof (cases a)
  case (On_cell i b)
  let ?k = "if 0 \<le> i then nat i else nat (int (length (cells pop)) + i)"
  from assms(1) On_cell obtain c c1 h1 p1 where
    g: "py_getitem (cells pop) i = Inr c" and s: "cell_step b (c, h, p) = Inr (c1, h1, p1)"
    and pop': "pop' = pop\<lparr>cells := (cells pop)[?k := c1]\<rparr>"
    by (auto split: sum.splits)
  from py_getitem_Inr [OF g] have k: "?k < length (cells pop)" and c: "c = cells pop ! ?k"
    by simp_all
  from assms(2) On_cell have "\<forall>x0 y0. b \<noteq> Set_position x0 y0" by simp
  from cell_step_position [OF s this] have same: "cell_x c1 = cell_x c" "cell_y c1 = cell_y c"
    by simp_all
  have "map cell_x ((cells pop)[?k := c1]) = (map cell_x (cells pop))[?k := cell_x (cells pop ! ?k)]"
    by (simp only: map_update same c)
  also have "\<dots> = map cell_x (cells pop)"
    using k by (simp only: nth_map [symmetric] list_update_id)
  finally have X: "map cell_x ((cells pop)[?k := c1]) = map cell_x (cells pop)" .
  have "map cell_y ((cells pop)[?k := c1]) = (map cell_y (cells pop))[?k := cell_y (cells pop ! ?k)]"
    by (simp only: map_update same c)
  also have "\<dots> = map cell_y (cells pop)"
    using k by (simp only: nth_map [symmetric] list_update_id)
  finally have Y: "map cell_y ((cells pop)[?k := c1]) = map cell_y (cells pop)" .
  from X Y show ?thesis by (simp add: pop')
next
  case (Plot_net sh)
  with assms(1) show ?thesis by (auto split: sum.splits)
next
  case (Plot_raster color sh)
  with assms(1) show ?thesis by auto
next
  case (Run sim)
  with assms(1) show ?thesis by auto
qed

lemma pop_steps_position:
  assumes "pop_steps ops (pop, h, p) = Inr (pop', h', p')"
    and "\<forall>i x0 y0. On_cell i (Set_position x0 y0) \<notin> set ops"
  shows "map cell_x (cells pop') = map cell_x (cells pop) \<and>
         map cell_y (cells pop') = map cell_y (cells pop)"
  using assms
proof (induction ops arbitrary: pop h p)
  case Nil
  then show ?case by simp
next
  case (Cons a ops)
  from Cons.prems(1) obtain pop1 h1 p1 where
    s: "pop_step a (pop, h, p) = Inr (pop1, h1, p1)"
    and r: "pop_steps ops (pop1, h1, p1) = Inr (pop', h', p')"
    by (auto split: sum.splits)
  from Cons.prems(2) have na: "\<forall>i x0 y0. a \<noteq> On_cell i (Set_position x0 y0)"
    and nops: "\<forall>i x0 y0. On_cell i (Set_position x0 y0) \<notin> set ops" by auto
  from pop_step_position [OF s na] Cons.IH [OF r nops] show ?case by simp
qed

lemma Pop_init_positions:
  assumes "Pop_init mt n xr yr h rng = Inr (pop, h1, rng1)"
  shows "\<exists>xlo xhi ylo yhi.
           py_getitem xr 0 = Inr xlo \<and> py_getitem xr 1 = Inr xhi \<and>
           py_getitem yr 0 = Inr ylo \<and> py_getitem yr 1 = Inr yhi \<and>
           map cell_x (cells pop) =
             map Some (fst (np_random_uniform mt (fst Pop_size * xlo) (fst Pop_size * xhi) n rng)) \<and>
           map cell_y (cells pop) =
             map Some (fst (np_random_uniform mt (snd Pop_size * ylo) (snd Pop_size * yhi) n
                (snd (np_random_uniform mt (fst Pop_size * xlo) (fst Pop_size * xhi) n rng))))"
proof -
  from Pop_init_Inr [OF assms] obtain xlo xhi ylo yhi self0 h0 where
    g: "py_getitem xr 0 = Inr xlo" "py_getitem xr 1 = Inr xhi"
       "py_getitem yr 0 = Inr ylo" "py_getitem yr 1 = Inr yhi"
    and e: "cells self0 = []"
    and p: "pop = fst (create_cells_loop
         (map (\<lambda>k. 100 * xlo + (100 * xhi - 100 * xlo) * mt (rng_seed rng) (rng_pos rng + k)) [0..<n])
         (map (\<lambda>k. 100 * ylo + (100 * yhi - 100 * ylo) * mt (rng_seed rng) (rng_pos rng + n + k)) [0..<n])
         [0..<n] self0 h0)"
    by blast
  note lc = loop_cells [of _ _ "[0..<n]" self0 h0, folded p]
  have X: "map cell_x (cells pop) =
      map Some (fst (np_random_uniform mt (fst Pop_size * xlo) (fst Pop_size * xhi) n rng))"
    using lc [of _ _] e
    by (simp add: p map_nth_upt np_random_uniform_def Pop_size_def del: upt_Suc)
  have Y: "map cell_y (cells pop) =
      map Some (fst (np_random_uniform mt (snd Pop_size * ylo) (snd Pop_size * yhi) n
                (snd (np_random_uniform mt (fst Pop_size * xlo) (fst Pop_size * xhi) n rng))))"
    using lc [of _ _] e
    by (simp add: p map_nth_upt np_random_uniform_def Pop_size_def del: upt_Suc)
  from g X Y show ?thesis by blast
qed

text \<open>
  Claim C8. The cells of a population get their positions in \<^verbatim>\<open>create_cells\<close>: the
  \<open>x\<close> and \<open>y\<close> of the cell \<open>i\<close> are the \<open>i\<close>-th samples drawn for \<open>x\<close> and for \<open>y\<close>.
  After any sequence of later operations that succeeds and has no call of
  \<^verbatim>\<open>set_position\<close> (methods of the member cells for stimulation, recording, synapses,
  wiring and plotting, the population's plots, runs of the engine), every cell has the
  position it was given at creation.
\<close>


theorem positions_assigned_once:
  assumes "Pop_init mt n xr yr h rng = Inr (pop, h1, rng1)"
    and "pop_steps ops (pop, h1, p) = Inr (pop', h', p')"
    and "\<forall>i x0 y0. On_cell i (Set_position x0 y0) \<notin> set ops"
  shows "map cell_x (cells pop') = map cell_x (cells pop) \<and>
         map cell_y (cells pop') = map cell_y (cells pop) \<and>
         (\<exists>xlo xhi ylo yhi.
           py_getitem xr 0 = Inr xlo \<and> py_getitem xr 1 = Inr xhi \<and>
           py_getitem yr 0 = Inr ylo \<and> py_getitem yr 1 = Inr yhi \<and>
           map cell_x (cells pop') =
             map Some (fst (np_random_uniform mt (fst Pop_size * xlo) (fst Pop_size * xhi) n rng)) \<and>
           map cell_y (cells pop') =
             map Some (fst (np_random_uniform mt (snd Pop_size * ylo) (snd Pop_size * yhi) n
                (snd (np_random_uniform mt (fst Pop_size * xlo) (fst Pop_size * xhi) n rng)))))"
  using pop_steps_position [OF assms(2,3)] Pop_init_positions [OF assms(1)]
  by simp


lemma demo_ops_run:
  "pop_steps demo_ops (fst (projr demo_pop), fst (snd (projr demo_pop)), plt_init) =
     Inr (projr (pop_steps demo_ops (fst (projr demo_pop), fst (snd (projr demo_pop)), plt_init)))"
proof -
  have "\<exists>w. pop_steps demo_ops (fst (projr demo_pop), fst (snd (projr demo_pop)), plt_init) = Inr w"
    by (simp add: demo_ops_def py_getitem_def demo_pop_cells)
  then obtain w where
    "pop_steps demo_ops (fst (projr demo_pop), fst (snd (projr demo_pop)), plt_init) = Inr w" ..
  then show ?thesis by (rule Inr_projr)
qed

theorem positions_assigned_once_witness:
  "Pop_init demo_mt 1 [0.0, 1.0] [0.2, 1] hoc_init
      (np_random_seed 111 \<lparr>rng_seed = 0, rng_pos = 0\<rparr>) = Inr (projr demo_pop) \<and>
   pop_steps demo_ops (fst (projr demo_pop), fst (snd (projr demo_pop)), plt_init) =
     Inr (projr (pop_steps demo_ops (fst (projr demo_pop), fst (snd (projr demo_pop)), plt_init))) \<and>
   (\<forall>i x0 y0. On_cell i (Set_position x0 y0) \<notin> set demo_ops) \<and>
   map cell_x (cells (fst (projr (pop_steps demo_ops
      (fst (projr demo_pop), fst (snd (projr demo_pop)), plt_init))))) = [Some 50] \<and>
   map cell_y (cells (fst (projr (pop_steps demo_ops
      (fst (projr demo_pop), fst (snd (projr demo_pop)), plt_init))))) = [Some 60]"
proof -
  let ?w = "projr (pop_steps demo_ops (fst (projr demo_pop), fst (snd (projr demo_pop)), plt_init))"
  have init: "Pop_init demo_mt 1 [0.0, 1.0] [0.2, 1] hoc_init
      (np_random_seed 111 \<lparr>rng_seed = 0, rng_pos = 0\<rparr>) =
      Inr (fst (projr demo_pop), fst (snd (projr demo_pop)), snd (snd (projr demo_pop)))"
    using demo_pop_Inr by (simp only: prod.collapse)
  have run: "pop_steps demo_ops (fst (projr demo_pop), fst (snd (projr demo_pop)), plt_init) =
      Inr (fst ?w, fst (snd ?w), snd (snd ?w))"
    using demo_ops_run by (simp only: prod.collapse)
  have no: "\<forall>i x0 y0. On_cell i (Set_position x0 y0) \<notin> set demo_ops"
    by (simp add: demo_ops_def)
  have g: "py_getitem [0.0, 1.0 :: real] 0 = Inr xlo \<longleftrightarrow> xlo = 0"
    "py_getitem [0.0, 1.0 :: real] 1 = Inr xhi \<longleftrightarrow> xhi = 1"
    "py_getitem [0.2, 1 :: real] 0 = Inr ylo \<longleftrightarrow> ylo = 0.2"
    "py_getitem [0.2, 1 :: real] 1 = Inr yhi \<longleftrightarrow> yhi = 1" for xlo xhi ylo yhi
    by (auto simp: py_getitem_def)
  have u: "fst (np_random_uniform demo_mt (fst Pop_size * 0) (fst Pop_size * 1) 1 r) = [50]"
    "fst (np_random_uniform demo_mt (snd Pop_size * 0.2) (snd Pop_size * 1) 1 r) = [60]" for r
    by (simp_all add: np_random_uniform_def Pop_size_def demo_mt_def)
  from positions_assigned_once [OF init run no]
  have pos: "map cell_x (cells (fst ?w)) = [Some 50] \<and> map cell_y (cells (fst ?w)) = [Some 60]"
    unfolding g by (elim conjE exE) (simp only: u list.map)
  show ?thesis
    by (intro conjI) (rule demo_pop_Inr, rule demo_ops_run, rule no, simp_all only: pos)
qed

end
